theory Spec2Isabelle
  imports Main "HOL-Library.Sublist"
begin

section \<open>Python values and the operations the program applies to them\<close>

text \<open>
  The program (\<^verbatim>\<open>vex/package.py\<close>) consumes a document produced by \<^verbatim>\<open>json.load\<close>.
  Such a document is a tree of Python values: \<^verbatim>\<open>None\<close>, booleans, numbers, strings,
  lists and dicts with string keys. A dict is given by its items in insertion order (its
  keys are distinct, as in every Python dict). Each \<open>char\<close> stands for one character
  of a Python \<^verbatim>\<open>str\<close>. The program never inspects a number, so the integer payload of
  \<open>JNum\<close> stands for any numeric value.
\<close>

datatype json =
    JNull
  | JBool bool
  | JNum int
  | JStr string
  | JArr "json list"
  | JObj "(string \<times> json) list"

text \<open>The exceptions that the statements of the program can raise.\<close>

datatype error = KeyError | TypeError | ValueError | AttributeError | IndexError

text \<open>
  An attribute of an object that is assigned only on some paths: \<open>Absent\<close> means the
  attribute was never assigned (reading it raises \<^verbatim>\<open>AttributeError\<close>).
\<close>

datatype 'a attr = Absent | Present 'a

text \<open>\<^verbatim>\<open>s.split(c)\<close> for a separator of one character, and \<^verbatim>\<open>sep.join(ws)\<close>.\<close>

fun str_split :: "char \<Rightarrow> string \<Rightarrow> string list" where
  "str_split c [] = [[]]"
| "str_split c (x # xs) =
     (if x = c then [] # str_split c xs
      else (case str_split c xs of
              [] \<Rightarrow> [[x]]
            | w # ws \<Rightarrow> (x # w) # ws))"

fun str_join :: "string \<Rightarrow> string list \<Rightarrow> string" where
  "str_join sep [] = []"
| "str_join sep [w] = w"
| "str_join sep (w # ws) = w @ sep @ str_join sep ws"

text \<open>\<^verbatim>\<open>v in s\<close> for two strings: \<open>v\<close> occurs in \<open>s\<close> as a contiguous substring.\<close>

fun str_contains :: "string \<Rightarrow> string \<Rightarrow> bool" where
  "str_contains v [] = (v = [])"
| "str_contains v (x # xs) = (prefix v (x # xs) \<or> str_contains v xs)"

text \<open>\<^verbatim>\<open>v[key]\<close> for a string key: only a dict can be subscripted by a string.\<close>

fun py_getitem :: "json \<Rightarrow> string \<Rightarrow> error + json" where
  "py_getitem (JObj kvs) key =
     (case map_of kvs key of None \<Rightarrow> Inl KeyError | Some v \<Rightarrow> Inr v)"
| "py_getitem _ key = Inl TypeError"

text \<open>
  \<^verbatim>\<open>key in v\<close> for a string key: key membership in a dict, element membership in a list,
  substring test in a string; the other values are not containers.
\<close>

fun py_contains :: "string \<Rightarrow> json \<Rightarrow> error + bool" where
  "py_contains key (JObj kvs) = Inr (key \<in> set (map fst kvs))"
| "py_contains key (JArr xs) = Inr (JStr key \<in> set xs)"
| "py_contains key (JStr s) = Inr (str_contains key s)"
| "py_contains key _ = Inl TypeError"

text \<open>\<^verbatim>\<open>v.keys()\<close>: only a dict has the method.\<close>

fun py_keys :: "json \<Rightarrow> error + string list" where
  "py_keys (JObj kvs) = Inr (map fst kvs)"
| "py_keys _ = Inl AttributeError"

text \<open>
  \<^verbatim>\<open>for x in v\<close>: the elements of a list, the keys of a dict, the characters of a
  string; the other values are not iterable.
\<close>

fun py_iter :: "json \<Rightarrow> error + json list" where
  "py_iter (JArr xs) = Inr xs"
| "py_iter (JObj kvs) = Inr (map (\<lambda>kv. JStr (fst kv)) kvs)"
| "py_iter (JStr s) = Inr (map (\<lambda>c. JStr [c]) s)"
| "py_iter _ = Inl TypeError"

text \<open>\<^verbatim>\<open>v.split(c)\<close>: only a string has the method.\<close>

fun py_split :: "json \<Rightarrow> char \<Rightarrow> error + string list" where
  "py_split (JStr s) c = Inr (str_split c s)"
| "py_split _ c = Inl AttributeError"

text \<open>\<^verbatim>\<open>xs[-1]\<close>.\<close>

fun py_last :: "'a list \<Rightarrow> error + 'a" where
  "py_last [] = Inl IndexError"
| "py_last xs = Inr (last xs)"

text \<open>A value can be a dict key unless it is a list or a dict.\<close>

fun hashable :: "json \<Rightarrow> bool" where
  "hashable (JArr xs) = False"
| "hashable (JObj kvs) = False"
| "hashable _ = True"

text \<open>
  \<^verbatim>\<open>for x in xs: body\<close>, where the body updates a state and may raise: the first
  exception ends the loop.
\<close>

fun for_each :: "('a \<Rightarrow> 's \<Rightarrow> error + 's) \<Rightarrow> 'a list \<Rightarrow> 's \<Rightarrow> error + 's" where
  "for_each body [] s = Inr s"
| "for_each body (x # xs) s =
     (case body x s of Inl e \<Rightarrow> Inl e | Inr s' \<Rightarrow> for_each body xs s')"


section \<open>The product index\<close>

text \<open>
  \<^verbatim>\<open>self.pmap\<close> is a list of one-entry dicts \<^verbatim>\<open>{id: name}\<close>; each is modelled as the
  pair \<open>(id, name)\<close>. \<^verbatim>\<open>product_lookup\<close> returns the name of the first entry whose key
  equals the given string, and \<^verbatim>\<open>None\<close> (here \<open>JNull\<close>) when the loop ends without
  a match.
\<close>

type_synonym product_map = "(json \<times> json) list"

fun product_lookup :: "string \<Rightarrow> product_map \<Rightarrow> json" where
  "product_lookup product [] = JNull"
| "product_lookup product ((k, name) # pm) =
     (if k = JStr product then name else product_lookup product pm)"


section \<open>The classification records\<close>

record Fix =
  fix_id :: json
  fix_url :: json
  fix_components :: "string list"
  fix_vendor :: "string attr"
  fix_product :: "json attr"

record WontFix =
  wf_reason :: json
  wf_component :: string
  wf_product :: json

record NotAffected =
  na_components :: "string list"
  na_product :: json

record Affected =
  af_components :: "string list"
  af_product :: json

record workaround =
  wa_details :: json
  wa_packages :: "json list"

text \<open>
  \<^verbatim>\<open>vex/constants.py\<close> is not part of the sources at hand, so its two exports are
  parameters of the model:
  \<^item> \<open>filter_components\<close> (written \<open>fc\<close>) maps the value it is given to the exception it
    raises or to the list it returns;
  \<^item> \<open>VENDOR_ADVISORY\<close> (written \<open>va\<close>) is a dict from marker string to vendor name,
    given by its items in insertion order.
\<close>

type_synonym filter_components = "json \<Rightarrow> error + json list"
type_synonym vendor_advisory = "(string \<times> string) list"

text \<open>The loop over \<^verbatim>\<open>VENDOR_ADVISORY\<close> in \<^verbatim>\<open>Fix.__init__\<close>: there is no \<^verbatim>\<open>break\<close>.\<close>

fun Fix_vendors :: "vendor_advisory \<Rightarrow> Fix \<Rightarrow> error + Fix" where
  "Fix_vendors [] f = Inr f"
| "Fix_vendors ((v, vendor) # vs) f =
     (case py_contains v (fix_url f) of
        Inl e \<Rightarrow> Inl e
      | Inr False \<Rightarrow> Fix_vendors vs f
      | Inr True \<Rightarrow>
          (case py_split (fix_url f) (CHR ''/'') of
             Inl e \<Rightarrow> Inl e
           | Inr segs \<Rightarrow>
               (case py_last segs of
                  Inl e \<Rightarrow> Inl e
                | Inr i \<Rightarrow>
                    Fix_vendors vs
                      (f\<lparr>fix_id := JStr (if vendor = ''Gentoo'' then v @ ''-'' @ i else i),
                         fix_vendor := Present vendor\<rparr>))))"

text \<open>The loop over the filtered identifiers in \<^verbatim>\<open>Fix.__init__\<close>.\<close>

fun Fix_components :: "product_map \<Rightarrow> json list \<Rightarrow> Fix \<Rightarrow> error + Fix" where
  "Fix_components pm [] f = Inr f"
| "Fix_components pm (y # ys) f =
     (case py_split y (CHR '':'') of
        Inl e \<Rightarrow> Inl e
      | Inr [product, component, version] \<Rightarrow>
          Fix_components pm ys
            (f\<lparr>fix_components := fix_components f @ [str_join '':'' [component, version]],
               fix_product := Present (product_lookup product pm)\<rparr>)
      | Inr _ \<Rightarrow> Inl ValueError)"

definition Fix_init ::
  "filter_components \<Rightarrow> vendor_advisory \<Rightarrow> json \<Rightarrow> product_map \<Rightarrow> error + Fix" where
  "Fix_init fc va x pm =
     (case py_getitem x ''url'' of
        Inl e \<Rightarrow> Inl e
      | Inr url \<Rightarrow>
          (case Fix_vendors va
                  \<lparr>fix_id = JNull, fix_url = url, fix_components = [],
                   fix_vendor = Absent, fix_product = Absent\<rparr> of
             Inl e \<Rightarrow> Inl e
           | Inr f \<Rightarrow>
               (case py_getitem x ''product_ids'' of
                  Inl e \<Rightarrow> Inl e
                | Inr pids \<Rightarrow>
                    (case fc pids of
                       Inl e \<Rightarrow> Inl e
                     | Inr ys \<Rightarrow> Fix_components pm ys f))))"

text \<open>
  \<^verbatim>\<open>WontFix.__init__\<close>. Its \<^verbatim>\<open>print\<close> writes to standard output and has no effect on
  the object; it is left out.
\<close>

definition WontFix_init :: "json \<Rightarrow> json \<Rightarrow> product_map \<Rightarrow> error + WontFix" where
  "WontFix_init y x pm =
     (case py_getitem x ''details'' of
        Inl e \<Rightarrow> Inl e
      | Inr reason \<Rightarrow>
          (case py_split y (CHR '':'') of
             Inl e \<Rightarrow> Inl e
           | Inr [product, component] \<Rightarrow>
               Inr \<lparr>wf_reason = reason, wf_component = component,
                    wf_product = product_lookup product pm\<rparr>
           | Inr _ \<Rightarrow> Inl ValueError))"

definition NotAffected_init :: "json \<Rightarrow> product_map \<Rightarrow> error + NotAffected" where
  "NotAffected_init y pm =
     (case py_split y (CHR '':'') of
        Inl e \<Rightarrow> Inl e
      | Inr [] \<Rightarrow> Inl IndexError
      | Inr (product # rest) \<Rightarrow>
          Inr \<lparr>na_components = [str_join '':'' rest],
               na_product = product_lookup product pm\<rparr>)"

definition Affected_init :: "json \<Rightarrow> product_map \<Rightarrow> error + Affected" where
  "Affected_init y pm =
     (case py_split y (CHR '':'') of
        Inl e \<Rightarrow> Inl e
      | Inr [] \<Rightarrow> Inl IndexError
      | Inr (product # rest) \<Rightarrow>
          Inr \<lparr>af_components = [str_join '':'' rest],
               af_product = product_lookup product pm\<rparr>)"


section \<open>The \<^verbatim>\<open>VexPackages\<close> object\<close>

record VexPackages =
  raw :: json
  pmap :: product_map
  fixes' :: "Fix list"
  workarounds :: "workaround list"
  wontfix :: "WontFix list"
  affected :: "Affected list"
  not_affected :: "NotAffected list"

subsection \<open>\<^verbatim>\<open>build_product_tree\<close>\<close>

text \<open>The three nested loop bodies, innermost first (variables \<^verbatim>\<open>c\<close>, \<^verbatim>\<open>b\<close>, \<^verbatim>\<open>p\<close>).\<close>

definition build_product_tree_c :: "json \<Rightarrow> product_map \<Rightarrow> error + product_map" where
  "build_product_tree_c c pm =
     (case py_keys c of
        Inl e \<Rightarrow> Inl e
      | Inr ks \<Rightarrow>
          if ''category'' \<in> set ks then
            (case py_getitem c ''category'' of
               Inl e \<Rightarrow> Inl e
             | Inr cat \<Rightarrow>
                 if cat = JStr ''product_name'' then
                   (case py_getitem c ''name'' of
                      Inl e \<Rightarrow> Inl e
                    | Inr name \<Rightarrow>
                        (case py_getitem c ''product'' of
                           Inl e \<Rightarrow> Inl e
                         | Inr pr \<Rightarrow>
                             (case py_getitem pr ''product_id'' of
                                Inl e \<Rightarrow> Inl e
                              | Inr i \<Rightarrow>
                                  if hashable i then Inr (pm @ [(i, name)])
                                  else Inl TypeError)))
                 else Inr pm)
          else Inr pm)"

definition build_product_tree_b :: "json \<Rightarrow> product_map \<Rightarrow> error + product_map" where
  "build_product_tree_b b pm =
     (case py_keys b of
        Inl e \<Rightarrow> Inl e
      | Inr ks \<Rightarrow>
          if ''branches'' \<in> set ks then
            (case py_getitem b ''branches'' of
               Inl e \<Rightarrow> Inl e
             | Inr bs \<Rightarrow>
                 (case py_iter bs of
                    Inl e \<Rightarrow> Inl e
                  | Inr cs \<Rightarrow> for_each build_product_tree_c cs pm))
          else Inr pm)"

definition build_product_tree_p :: "json \<Rightarrow> product_map \<Rightarrow> error + product_map" where
  "build_product_tree_p p pm =
     (case py_getitem p ''branches'' of
        Inl e \<Rightarrow> Inl e
      | Inr bs \<Rightarrow>
          (case py_iter bs of
             Inl e \<Rightarrow> Inl e
           | Inr bl \<Rightarrow> for_each build_product_tree_b bl pm))"

definition build_product_tree :: "VexPackages \<Rightarrow> error + VexPackages" where
  "build_product_tree self =
     (case py_getitem (raw self) ''product_tree'' of
        Inl e \<Rightarrow> Inl e
      | Inr pt \<Rightarrow>
          (case py_getitem pt ''branches'' of
             Inl e \<Rightarrow> Inl e
           | Inr bs \<Rightarrow>
               (case py_iter bs of
                  Inl e \<Rightarrow> Inl e
                | Inr ps \<Rightarrow>
                    (case for_each build_product_tree_p ps [] of
                       Inl e \<Rightarrow> Inl e
                     | Inr pm \<Rightarrow> Inr (self\<lparr>pmap := pm\<rparr>)))))"

subsection \<open>\<^verbatim>\<open>parse_packages\<close>\<close>

text \<open>
  The body of the loop over \<^verbatim>\<open>k['remediations']\<close> is a sequence of three \<^verbatim>\<open>if\<close>
  statements, each testing \<^verbatim>\<open>x['category']\<close>; one definition for each.
\<close>

definition remediation_vendor_fix ::
  "filter_components \<Rightarrow> vendor_advisory \<Rightarrow> json \<Rightarrow> VexPackages \<Rightarrow> error + VexPackages" where
  "remediation_vendor_fix fc va x self =
     (case py_getitem x ''category'' of
        Inl e \<Rightarrow> Inl e
      | Inr cat \<Rightarrow>
          if cat = JStr ''vendor_fix'' then
            (case Fix_init fc va x (pmap self) of
               Inl e \<Rightarrow> Inl e
             | Inr f \<Rightarrow> Inr (self\<lparr>fixes' := fixes' self @ [f]\<rparr>))
          else Inr self)"

definition remediation_workaround ::
  "filter_components \<Rightarrow> json \<Rightarrow> VexPackages \<Rightarrow> error + VexPackages" where
  "remediation_workaround fc x self =
     (case py_getitem x ''category'' of
        Inl e \<Rightarrow> Inl e
      | Inr cat \<Rightarrow>
          if cat = JStr ''workaround'' then
            (case py_getitem x ''details'' of
               Inl e \<Rightarrow> Inl e
             | Inr wa \<Rightarrow>
                 (case py_getitem x ''product_ids'' of
                    Inl e \<Rightarrow> Inl e
                  | Inr pids \<Rightarrow>
                      (case fc pids of
                         Inl e \<Rightarrow> Inl e
                       | Inr w_pkgs \<Rightarrow>
                           Inr (self\<lparr>workarounds := workarounds self @
                                  [\<lparr>wa_details = wa, wa_packages = w_pkgs\<rparr>]\<rparr>))))
          else Inr self)"

definition add_wontfix :: "json \<Rightarrow> json \<Rightarrow> VexPackages \<Rightarrow> error + VexPackages" where
  "add_wontfix x y self =
     (case WontFix_init y x (pmap self) of
        Inl e \<Rightarrow> Inl e
      | Inr w \<Rightarrow> Inr (self\<lparr>wontfix := wontfix self @ [w]\<rparr>))"

definition remediation_no_fix_planned :: "json \<Rightarrow> VexPackages \<Rightarrow> error + VexPackages" where
  "remediation_no_fix_planned x self =
     (case py_getitem x ''category'' of
        Inl e \<Rightarrow> Inl e
      | Inr cat \<Rightarrow>
          if cat = JStr ''no_fix_planned'' then
            (case py_getitem x ''product_ids'' of
               Inl e \<Rightarrow> Inl e
             | Inr pids \<Rightarrow>
                 (case py_iter pids of
                    Inl e \<Rightarrow> Inl e
                  | Inr ys \<Rightarrow> for_each (add_wontfix x) ys self))
          else Inr self)"

definition parse_remediation ::
  "filter_components \<Rightarrow> vendor_advisory \<Rightarrow> json \<Rightarrow> VexPackages \<Rightarrow> error + VexPackages" where
  "parse_remediation fc va x self =
     (case remediation_vendor_fix fc va x self of
        Inl e \<Rightarrow> Inl e
      | Inr self1 \<Rightarrow>
          (case remediation_workaround fc x self1 of
             Inl e \<Rightarrow> Inl e
           | Inr self2 \<Rightarrow> remediation_no_fix_planned x self2))"

text \<open>
  The body of the loop over \<^verbatim>\<open>k['product_status']\<close>, for the entry \<open>k\<close>: two \<^verbatim>\<open>if\<close>
  statements on the key \<open>x\<close>.
\<close>

definition add_affected :: "json \<Rightarrow> VexPackages \<Rightarrow> error + VexPackages" where
  "add_affected y self =
     (case Affected_init y (pmap self) of
        Inl e \<Rightarrow> Inl e
      | Inr a \<Rightarrow> Inr (self\<lparr>affected := affected self @ [a]\<rparr>))"

definition add_not_affected :: "json \<Rightarrow> VexPackages \<Rightarrow> error + VexPackages" where
  "add_not_affected y self =
     (case NotAffected_init y (pmap self) of
        Inl e \<Rightarrow> Inl e
      | Inr a \<Rightarrow> Inr (self\<lparr>not_affected := not_affected self @ [a]\<rparr>))"

definition status_known_affected ::
  "filter_components \<Rightarrow> json \<Rightarrow> json \<Rightarrow> VexPackages \<Rightarrow> error + VexPackages" where
  "status_known_affected fc k x self =
     (if x = JStr ''known_affected'' then
        (case py_getitem k ''product_status'' of
           Inl e \<Rightarrow> Inl e
         | Inr ps \<Rightarrow>
             (case py_getitem ps ''known_affected'' of
                Inl e \<Rightarrow> Inl e
              | Inr ids \<Rightarrow>
                  (case fc ids of
                     Inl e \<Rightarrow> Inl e
                   | Inr ys \<Rightarrow> for_each add_affected ys self)))
      else Inr self)"

definition status_known_not_affected ::
  "filter_components \<Rightarrow> json \<Rightarrow> json \<Rightarrow> VexPackages \<Rightarrow> error + VexPackages" where
  "status_known_not_affected fc k x self =
     (if x = JStr ''known_not_affected'' then
        (case py_getitem k ''product_status'' of
           Inl e \<Rightarrow> Inl e
         | Inr ps \<Rightarrow>
             (case py_getitem ps ''known_not_affected'' of
                Inl e \<Rightarrow> Inl e
              | Inr ids \<Rightarrow>
                  (case fc ids of
                     Inl e \<Rightarrow> Inl e
                   | Inr ys \<Rightarrow> for_each add_not_affected ys self)))
      else Inr self)"

definition parse_status ::
  "filter_components \<Rightarrow> json \<Rightarrow> json \<Rightarrow> VexPackages \<Rightarrow> error + VexPackages" where
  "parse_status fc k x self =
     (case status_known_affected fc k x self of
        Inl e \<Rightarrow> Inl e
      | Inr self1 \<Rightarrow> status_known_not_affected fc k x self1)"

text \<open>The two parts of the body of the loop over \<^verbatim>\<open>self.raw['vulnerabilities']\<close>.\<close>

definition parse_remediations ::
  "filter_components \<Rightarrow> vendor_advisory \<Rightarrow> json \<Rightarrow> VexPackages \<Rightarrow> error + VexPackages" where
  "parse_remediations fc va k self =
     (case py_contains ''remediations'' k of
        Inl e \<Rightarrow> Inl e
      | Inr False \<Rightarrow> Inr self
      | Inr True \<Rightarrow>
          (case py_getitem k ''remediations'' of
             Inl e \<Rightarrow> Inl e
           | Inr rs \<Rightarrow>
               (case py_iter rs of
                  Inl e \<Rightarrow> Inl e
                | Inr xs \<Rightarrow> for_each (parse_remediation fc va) xs self)))"

definition parse_product_status ::
  "filter_components \<Rightarrow> json \<Rightarrow> VexPackages \<Rightarrow> error + VexPackages" where
  "parse_product_status fc k self =
     (case py_contains ''product_status'' k of
        Inl e \<Rightarrow> Inl e
      | Inr False \<Rightarrow> Inr self
      | Inr True \<Rightarrow>
          (case py_getitem k ''product_status'' of
             Inl e \<Rightarrow> Inl e
           | Inr ps \<Rightarrow>
               (case py_iter ps of
                  Inl e \<Rightarrow> Inl e
                | Inr xs \<Rightarrow> for_each (parse_status fc k) xs self)))"

definition parse_vulnerability ::
  "filter_components \<Rightarrow> vendor_advisory \<Rightarrow> json \<Rightarrow> VexPackages \<Rightarrow> error + VexPackages" where
  "parse_vulnerability fc va k self =
     (case parse_remediations fc va k self of
        Inl e \<Rightarrow> Inl e
      | Inr self1 \<Rightarrow> parse_product_status fc k self1)"

definition parse_packages ::
  "filter_components \<Rightarrow> vendor_advisory \<Rightarrow> VexPackages \<Rightarrow> error + VexPackages" where
  "parse_packages fc va self =
     (case py_getitem (raw self) ''vulnerabilities'' of
        Inl e \<Rightarrow> Inl e
      | Inr vs \<Rightarrow>
          (case py_iter vs of
             Inl e \<Rightarrow> Inl e
           | Inr ks \<Rightarrow>
               for_each (parse_vulnerability fc va) ks
                 (self\<lparr>fixes' := [], workarounds := [], wontfix := [],
                       affected := [], not_affected := []\<rparr>)))"

subsection \<open>\<^verbatim>\<open>VexPackages.__init__\<close>\<close>

text \<open>
  The two methods that \<^verbatim>\<open>__init__\<close> calls, on an object whose \<^verbatim>\<open>raw\<close> is already set.
\<close>

definition classify ::
  "filter_components \<Rightarrow> vendor_advisory \<Rightarrow> VexPackages \<Rightarrow> error + VexPackages" where
  "classify fc va self =
     (case build_product_tree self of
        Inl e \<Rightarrow> Inl e
      | Inr self1 \<Rightarrow> parse_packages fc va self1)"

text \<open>
  A new object has no attribute yet. The record needs a value in every field; the empty
  lists below are placeholders, each overwritten before the program reads it. An exception
  leaves the constructor without an object: the result \<open>Inl e\<close> carries no buckets.
\<close>

definition VexPackages_new :: "json \<Rightarrow> VexPackages" where
  "VexPackages_new vexdata =
     \<lparr>raw = vexdata, pmap = [], fixes' = [], workarounds = [], wontfix = [],
      affected = [], not_affected = []\<rparr>"

definition VexPackages_init ::
  "filter_components \<Rightarrow> vendor_advisory \<Rightarrow> json \<Rightarrow> error + VexPackages" where
  "VexPackages_init fc va vexdata = classify fc va (VexPackages_new vexdata)"


section \<open>Notions used to state the properties\<close>

text \<open>
  A composite identifier read as the specification reads it: the first colon-separated
  segment is the product id, the remaining segments rejoined with colons are the component.
\<close>

definition id_product :: "string \<Rightarrow> string" where
  "id_product s = hd (str_split (CHR '':'') s)"

definition id_component :: "string \<Rightarrow> string" where
  "id_component s = str_join '':'' (tl (str_split (CHR '':'') s))"

text \<open>
  The product tree read generically: the children of a node are the items of its
  \<^verbatim>\<open>branches\<close> (none when the key is missing), and \<open>nodes_at_depth n v\<close> lists, in
  document order, the nodes \<open>n\<close> levels below \<open>v\<close>.
\<close>

definition branches_of :: "json \<Rightarrow> json list" where
  "branches_of v =
     (case py_getitem v ''branches'' of
        Inl e \<Rightarrow> []
      | Inr bs \<Rightarrow> (case py_iter bs of Inl e \<Rightarrow> [] | Inr xs \<Rightarrow> xs))"

primrec nodes_at_depth :: "nat \<Rightarrow> json \<Rightarrow> json list" where
  "nodes_at_depth 0 v = [v]"
| "nodes_at_depth (Suc n) v = concat (map (nodes_at_depth n) (branches_of v))"

definition is_product_name :: "json \<Rightarrow> bool" where
  "is_product_name c = (py_getitem c ''category'' = Inr (JStr ''product_name''))"

definition product_entry :: "json \<Rightarrow> (json \<times> json) option" where
  "product_entry c =
     (case py_getitem c ''name'' of
        Inl e \<Rightarrow> None
      | Inr name \<Rightarrow>
          (case py_getitem c ''product'' of
             Inl e \<Rightarrow> None
           | Inr pr \<Rightarrow>
               (case py_getitem pr ''product_id'' of
                  Inl e \<Rightarrow> None
                | Inr i \<Rightarrow> Some (i, name))))"

text \<open>The entries of the vendor table whose marker occurs in the URL, in table order.\<close>

definition matching_markers :: "vendor_advisory \<Rightarrow> json \<Rightarrow> vendor_advisory" where
  "matching_markers va url = filter (\<lambda>m. py_contains (fst m) url = Inr True) va"

text \<open>The advisory id that the last matching marker \<open>m\<close> gives to the URL \<open>u\<close>.\<close>

definition advisory_id :: "string \<times> string \<Rightarrow> string \<Rightarrow> string" where
  "advisory_id m u =
     (if snd m = ''Gentoo'' then fst m @ ''-'' @ last (str_split (CHR ''/'') u)
      else last (str_split (CHR ''/'') u))"


text \<open>
  The \<^verbatim>\<open>WontFix\<close> record that the identifier \<open>y\<close> of the remediation \<open>x\<close> stands for:
  \<open>y\<close> is a string of two segments, and the record holds the details of \<open>x\<close>, the
  component of \<open>y\<close> and the product that the index gives for the product id of \<open>y\<close>.
  Likewise the component that an identifier of three segments adds to a \<^verbatim>\<open>Fix\<close> record.
\<close>

definition wontfix_record :: "json \<Rightarrow> product_map \<Rightarrow> json \<Rightarrow> WontFix \<Rightarrow> bool" where
  "wontfix_record x pm y w =
     (case y of
        JStr s \<Rightarrow>
          (case py_getitem x ''details'' of
             Inl e \<Rightarrow> False
           | Inr d \<Rightarrow>
               length (str_split (CHR '':'') s) = 2
               \<and> w = \<lparr>wf_reason = d, wf_component = id_component s,
                       wf_product = product_lookup (id_product s) pm\<rparr>)
      | _ \<Rightarrow> False)"

definition fix_component :: "json \<Rightarrow> string \<Rightarrow> bool" where
  "fix_component y c =
     (case y of
        JStr s \<Rightarrow> length (str_split (CHR '':'') s) = 3 \<and> c = id_component s
      | _ \<Rightarrow> False)"

text \<open>
  The record that an identifier string stands for when it is decomposed as above and its
  product id is looked up in the index \<open>pm\<close>, for each kind of record that holds one
  identifier.
\<close>

definition affected_of :: "product_map \<Rightarrow> string \<Rightarrow> Affected" where
  "affected_of pm s =
     \<lparr>af_components = [id_component s], af_product = product_lookup (id_product s) pm\<rparr>"

definition not_affected_of :: "product_map \<Rightarrow> string \<Rightarrow> NotAffected" where
  "not_affected_of pm s =
     \<lparr>na_components = [id_component s], na_product = product_lookup (id_product s) pm\<rparr>"

definition wontfix_of :: "json \<Rightarrow> product_map \<Rightarrow> string \<Rightarrow> WontFix" where
  "wontfix_of d pm s =
     \<lparr>wf_reason = d, wf_component = id_component s,
      wf_product = product_lookup (id_product s) pm\<rparr>"

text \<open>What \<^verbatim>\<open>parse_packages\<close> reads from the object: the document and the index.\<close>

definition inputs :: "VexPackages \<Rightarrow> json \<times> product_map" where
  "inputs s = (raw s, pmap s)"

section \<open>Example inputs\<close>

text \<open>
  Instances of the two parameters for concrete evaluation: a filter that keeps every
  identifier of the list it is given, and a vendor table with two markers.
\<close>

definition keep_all :: filter_components where
  "keep_all ids = py_iter ids"

definition example_vendors :: vendor_advisory where
  "example_vendors = [(''RHSA'', ''Red Hat''), (''GLSA'', ''Gentoo'')]"

definition example_leaf :: json where
  "example_leaf =
     JObj [(''category'', JStr ''product_name''), (''name'', JStr ''Widget 1.0''),
           (''product'', JObj [(''product_id'', JStr ''WID1'')])]"

text \<open>The leaf three levels, two levels and one level below the product tree.\<close>

definition example_tree :: json where
  "example_tree =
     JObj [(''branches'', JArr [JObj [(''branches'',
             JArr [JObj [(''branches'', JArr [example_leaf])]])]])]"

definition shallow_tree :: json where
  "shallow_tree = JObj [(''branches'', JArr [JObj [(''branches'', JArr [example_leaf])]])]"

definition flat_tree :: json where
  "flat_tree = JObj [(''branches'', JArr [example_leaf])]"

definition example_doc :: "json \<Rightarrow> json list \<Rightarrow> json" where
  "example_doc tree vulns =
     JObj [(''product_tree'', tree), (''vulnerabilities'', JArr vulns)]"

definition example_index :: product_map where
  "example_index = [(JStr ''WID1'', JStr ''Widget 1.0'')]"


text \<open>Documents over these trees, one for each behaviour evaluated below.\<close>

definition extra_colon_fix :: json where
  "extra_colon_fix =
     JObj [(''category'', JStr ''vendor_fix''),
           (''url'', JStr ''https://example.org/errata/RHSA-2024-0001''),
           (''product_ids'', JArr [JStr ''p:c:v:extra''])]"

definition extra_colon_doc :: json where
  "extra_colon_doc =
     example_doc example_tree [JObj [(''remediations'', JArr [extra_colon_fix])]]"

definition one_segment_status_doc :: json where
  "one_segment_status_doc =
     example_doc example_tree
       [JObj [(''product_status'', JObj [(''known_affected'', JArr [JStr ''WID1''])])]]"

definition one_segment_wontfix :: json where
  "one_segment_wontfix =
     JObj [(''category'', JStr ''no_fix_planned''), (''details'', JStr ''Out of support scope''),
           (''product_ids'', JArr [JStr ''WID1''])]"

definition one_segment_wontfix_doc :: json where
  "one_segment_wontfix_doc =
     example_doc example_tree [JObj [(''remediations'', JArr [one_segment_wontfix])]]"


text \<open>The end-to-end example: one vendor fix and one product that is not affected.\<close>

definition example_fix :: json where
  "example_fix =
     JObj [(''category'', JStr ''vendor_fix''),
           (''url'', JStr ''https://example.org/errata/RHSA-2024-0001''),
           (''product_ids'', JArr [JStr ''WID1:widget:1.0-2.el9''])]"

definition example_vulnerability :: json where
  "example_vulnerability =
     JObj [(''remediations'', JArr [example_fix]),
           (''product_status'',
            JObj [(''known_not_affected'', JArr [JStr ''WID1:widget:1.0-1.el8''])])]"

definition end_to_end_doc :: json where
  "end_to_end_doc = example_doc example_tree [example_vulnerability]"

definition end_to_end_fix :: Fix where
  "end_to_end_fix =
     \<lparr>fix_id = JStr ''RHSA-2024-0001'',
      fix_url = JStr ''https://example.org/errata/RHSA-2024-0001'',
      fix_components = [''widget:1.0-2.el9''],
      fix_vendor = Present ''Red Hat'',
      fix_product = Present (JStr ''Widget 1.0'')\<rparr>"

definition end_to_end_result :: VexPackages where
  "end_to_end_result =
     \<lparr>raw = end_to_end_doc, pmap = example_index, fixes' = [end_to_end_fix],
      workarounds = [], wontfix = [], affected = [],
      not_affected = [\<lparr>na_components = [''widget:1.0-1.el8''],
                        na_product = JStr ''Widget 1.0''\<rparr>]\<rparr>"


text \<open>Remediations evaluated one at a time, and an index of two products.\<close>

definition example_wontfix :: json where
  "example_wontfix =
     JObj [(''category'', JStr ''no_fix_planned''), (''details'', JStr ''Out of support scope''),
           (''product_ids'', JArr [JStr ''WID1:widget'', JStr ''UNKNOWN:gadget''])]"

definition two_product_index :: product_map where
  "two_product_index =
     [(JStr ''WID1'', JStr ''Widget 1.0''), (JStr ''GAD2'', JStr ''Gadget 2.0'')]"

definition gentoo_fix :: json where
  "gentoo_fix =
     JObj [(''category'', JStr ''vendor_fix''),
           (''url'', JStr ''https://example.org/GLSA/202401-01''),
           (''product_ids'', JArr [JStr ''WID1:widget:1.0-2'', JStr ''GAD2:gadget:2.0-1''])]"

definition gentoo_fix_record :: Fix where
  "gentoo_fix_record =
     \<lparr>fix_id = JStr ''GLSA-202401-01'', fix_url = JStr ''https://example.org/GLSA/202401-01'',
      fix_components = [''widget:1.0-2'', ''gadget:2.0-1''],
      fix_vendor = Present ''Gentoo'', fix_product = Present (JStr ''Gadget 2.0'')\<rparr>"

definition unmarked_fix :: json where
  "unmarked_fix =
     JObj [(''category'', JStr ''vendor_fix''),
           (''url'', JStr ''https://example.org/advisories/ADV-1''),
           (''product_ids'', JArr [JStr ''WID1:widget:1.0-2''])]"

definition unmarked_fix_record :: Fix where
  "unmarked_fix_record =
     \<lparr>fix_id = JNull, fix_url = JStr ''https://example.org/advisories/ADV-1'',
      fix_components = [''widget:1.0-2''],
      fix_vendor = Absent, fix_product = Present (JStr ''Widget 1.0'')\<rparr>"

definition empty_fix :: json where
  "empty_fix =
     JObj [(''category'', JStr ''vendor_fix''),
           (''url'', JStr ''https://example.org/errata/RHSA-2024-0001''),
           (''product_ids'', JArr [])]"

definition empty_fix_record :: Fix where
  "empty_fix_record =
     \<lparr>fix_id = JStr ''RHSA-2024-0001'',
      fix_url = JStr ''https://example.org/errata/RHSA-2024-0001'',
      fix_components = [], fix_vendor = Present ''Red Hat'', fix_product = Absent\<rparr>"

definition two_product_object :: VexPackages where
  "two_product_object = (VexPackages_new JNull)\<lparr>pmap := two_product_index\<rparr>"

text \<open>
  Documents whose identifiers name a product id, \<^verbatim>\<open>UNKNOWN\<close>, that the tree does not
  declare, and a remediation without a planned fix whose identifier has three segments.
\<close>

definition unresolved_fix :: json where
  "unresolved_fix =
     JObj [(''category'', JStr ''vendor_fix''),
           (''url'', JStr ''https://example.org/errata/RHSA-2024-0002''),
           (''product_ids'', JArr [JStr ''WID1:widget:1.0-2'', JStr ''UNKNOWN:pkg:1.0''])]"

definition unresolved_wontfix :: json where
  "unresolved_wontfix =
     JObj [(''category'', JStr ''no_fix_planned''), (''details'', JStr ''Out of support scope''),
           (''product_ids'', JArr [JStr ''UNKNOWN:pkg''])]"

definition unresolved_vulnerability :: json where
  "unresolved_vulnerability =
     JObj [(''remediations'', JArr [unresolved_fix, unresolved_wontfix]),
           (''product_status'',
            JObj [(''known_affected'', JArr [JStr ''WID1:widget:1.0'', JStr ''UNKNOWN:pkg:1.0'']),
                  (''known_not_affected'', JArr [JStr ''UNKNOWN:pkg:1.0''])])]"

definition unresolved_doc :: json where
  "unresolved_doc = example_doc example_tree [unresolved_vulnerability]"

definition unresolved_result :: VexPackages where
  "unresolved_result =
     \<lparr>raw = unresolved_doc, pmap = example_index,
      fixes' = [\<lparr>fix_id = JStr ''RHSA-2024-0002'',
                 fix_url = JStr ''https://example.org/errata/RHSA-2024-0002'',
                 fix_components = [''widget:1.0-2'', ''pkg:1.0''],
                 fix_vendor = Present ''Red Hat'', fix_product = Present JNull\<rparr>],
      workarounds = [],
      wontfix = [\<lparr>wf_reason = JStr ''Out of support scope'', wf_component = ''pkg'',
                  wf_product = JNull\<rparr>],
      affected = [\<lparr>af_components = [''widget:1.0''], af_product = JStr ''Widget 1.0''\<rparr>,
                  \<lparr>af_components = [''pkg:1.0''], af_product = JNull\<rparr>],
      not_affected = [\<lparr>na_components = [''pkg:1.0''], na_product = JNull\<rparr>]\<rparr>"

definition unresolved_first_fix :: json where
  "unresolved_first_fix =
     JObj [(''category'', JStr ''vendor_fix''),
           (''url'', JStr ''https://example.org/errata/RHSA-2024-0002''),
           (''product_ids'', JArr [JStr ''UNKNOWN:pkg:1.0'', JStr ''WID1:widget:1.0-2''])]"

definition unresolved_first_doc :: json where
  "unresolved_first_doc =
     example_doc example_tree [JObj [(''remediations'', JArr [unresolved_first_fix])]]"

definition three_segment_wontfix :: json where
  "three_segment_wontfix =
     JObj [(''category'', JStr ''no_fix_planned''), (''details'', JStr ''Out of support scope''),
           (''product_ids'', JArr [JStr ''WID1:widget:1.0''])]"

definition three_segment_wontfix_doc :: json where
  "three_segment_wontfix_doc =
     example_doc example_tree [JObj [(''remediations'', JArr [three_segment_wontfix])]]"

section \<open>Strings, lookups and loops\<close>

text \<open>The definitions that unfold when a whole document is evaluated.\<close>

lemmas run_defs =
  VexPackages_init_def VexPackages_new_def classify_def build_product_tree_def
  example_doc_def example_tree_def example_leaf_def build_product_tree_p_def
  build_product_tree_b_def build_product_tree_c_def parse_packages_def
  parse_vulnerability_def parse_remediations_def parse_remediation_def
  remediation_vendor_fix_def remediation_workaround_def remediation_no_fix_planned_def
  Fix_init_def add_wontfix_def WontFix_init_def parse_product_status_def parse_status_def
  status_known_affected_def status_known_not_affected_def add_affected_def
  add_not_affected_def Affected_init_def NotAffected_init_def

lemma str_split_nonempty: "str_split c s \<noteq> []"
  by (induction s) (auto split: list.splits)

lemma str_split_no_sep: "c \<notin> set s \<Longrightarrow> str_split c s = [s]"
  by (induction s) auto

lemma str_split_first: "c \<notin> set p \<Longrightarrow> str_split c (p @ c # rest) = p # str_split c rest"
  by (induction p) auto

lemma str_join_split: "str_join [c] (str_split c s) = s"
proof (induction s)
  case Nil
  then show ?case by simp
next
  case (Cons x xs)
  obtain w ws where ws: "str_split c xs = w # ws"
    using str_split_nonempty [of c xs] by (cases "str_split c xs") auto
  show ?case
  proof (cases "x = c")
    case True
    with Cons ws show ?thesis by simp
  next
    case False
    with Cons ws show ?thesis by (cases ws) auto
  qed
qed

lemma product_lookup_absent: "JStr p \<notin> fst ` set pm \<Longrightarrow> product_lookup p pm = JNull"
  by (induction pm) auto

lemma for_each_append:
  "for_each body (xs @ ys) s =
     (case for_each body xs s of Inl e \<Rightarrow> Inl e | Inr s' \<Rightarrow> for_each body ys s')"
  by (induction xs arbitrary: s) (auto split: sum.splits)

text \<open>A loop fails as soon as its body fails on one of the items, whatever the state.\<close>

lemma for_each_fails:
  "x \<in> set xs \<Longrightarrow> (\<And>s. \<exists>e. body x s = Inl e) \<Longrightarrow> \<exists>e. for_each body xs s = Inl e"
proof (induction xs arbitrary: s)
  case Nil
  then show ?case by simp
next
  case (Cons a xs)
  show ?case
  proof (cases "body a s")
    case (Inl e)
    then show ?thesis by simp
  next
    case (Inr s')
    have "a \<noteq> x" using Inr Cons.prems(2) [of s] by auto
    with Cons.prems(1) have "x \<in> set xs" by simp
    from Cons.IH [OF this Cons.prems(2)] Inr show ?thesis by simp
  qed
qed


section \<open>Decomposition of composite identifiers\<close>

text \<open>
  The two notions agree with the plain reading of an identifier \<open>p:rest\<close> whose first
  segment \<open>p\<close> has no colon: the rest is kept whole, whatever colons it contains.
\<close>

lemma id_product_component:
  "CHR '':'' \<notin> set p \<Longrightarrow>
   id_product (p @ CHR '':'' # rest) = p \<and> id_component (p @ CHR '':'' # rest) = rest"
  by (simp add: id_product_def id_component_def str_split_first
      str_join_split [of "CHR '':''", simplified])

text \<open>\<^verbatim>\<open>Affected\<close> and \<^verbatim>\<open>NotAffected\<close> decompose every string in this way.\<close>

lemma Affected_init_string:
  "Affected_init (JStr s) pm =
     Inr \<lparr>af_components = [id_component s], af_product = product_lookup (id_product s) pm\<rparr>"
  by (cases "str_split (CHR '':'') s")
    (simp_all add: Affected_init_def id_product_def id_component_def str_split_nonempty)

lemma NotAffected_init_string:
  "NotAffected_init (JStr s) pm =
     Inr \<lparr>na_components = [id_component s], na_product = product_lookup (id_product s) pm\<rparr>"
  by (cases "str_split (CHR '':'') s")
    (simp_all add: NotAffected_init_def id_product_def id_component_def str_split_nonempty)

text \<open>
  C2 (evaluation at the identifier \<^verbatim>\<open>"p:c:v:extra"\<close>). \<^verbatim>\<open>Affected\<close> and \<^verbatim>\<open>NotAffected\<close> take
  the first segment as the product id and keep the rest, \<^verbatim>\<open>"c:v:extra"\<close>, as the component.
  \<^verbatim>\<open>Fix\<close> unpacks exactly three segments and \<^verbatim>\<open>WontFix\<close> exactly two: both raise
  \<^verbatim>\<open>ValueError\<close> on this identifier, and a document that lists it in a \<^verbatim>\<open>vendor_fix\<close>
  remediation is not classified at all.
\<close>

theorem extra_colon_identifier:
  "Affected_init (JStr ''p:c:v:extra'') pm =
     Inr \<lparr>af_components = [''c:v:extra''], af_product = product_lookup ''p'' pm\<rparr>
   \<and> NotAffected_init (JStr ''p:c:v:extra'') pm =
     Inr \<lparr>na_components = [''c:v:extra''], na_product = product_lookup ''p'' pm\<rparr>
   \<and> Fix_components pm [JStr ''p:c:v:extra''] f = Inl ValueError
   \<and> WontFix_init (JStr ''p:c:v:extra'') (JObj [(''details'', d)]) pm = Inl ValueError
   \<and> VexPackages_init keep_all example_vendors extra_colon_doc = Inl ValueError"
proof -
  have "VexPackages_init keep_all example_vendors extra_colon_doc = Inl ValueError"
    by (simp add: VexPackages_init_def VexPackages_new_def classify_def build_product_tree_def extra_colon_doc_def
        extra_colon_fix_def example_doc_def example_tree_def example_leaf_def
        build_product_tree_p_def build_product_tree_b_def build_product_tree_c_def
        parse_packages_def parse_vulnerability_def parse_remediations_def
        parse_remediation_def remediation_vendor_fix_def Fix_init_def keep_all_def
        example_vendors_def)
  then show ?thesis
    by (simp add: Affected_init_def NotAffected_init_def WontFix_init_def)
qed


section \<open>Identifiers with a single segment\<close>

lemma WontFix_init_one_segment:
  "CHR '':'' \<notin> set s \<Longrightarrow> py_getitem x ''details'' = Inr d \<Longrightarrow>
   WontFix_init (JStr s) x pm = Inl ValueError"
  by (simp add: WontFix_init_def str_split_no_sep)

lemma WontFix_init_one_segment_fails:
  "CHR '':'' \<notin> set s \<Longrightarrow> \<exists>e. WontFix_init (JStr s) x pm = Inl e"
  by (cases "py_getitem x ''details''") (simp_all add: WontFix_init_def str_split_no_sep)

lemma Fix_components_one_segment:
  "CHR '':'' \<notin> set s \<Longrightarrow> Fix_components pm (JStr s # ys) f = Inl ValueError"
  by (simp add: str_split_no_sep)

lemma Fix_components_fails:
  "JStr s \<in> set ys \<Longrightarrow> CHR '':'' \<notin> set s \<Longrightarrow> \<exists>e. Fix_components pm ys f = Inl e"
proof (induction ys arbitrary: f)
  case Nil
  then show ?case by simp
next
  case (Cons y ys)
  show ?case
  proof (cases "y = JStr s")
    case True
    with Cons.prems show ?thesis by (simp add: str_split_no_sep)
  next
    case False
    with Cons.prems have "JStr s \<in> set ys" by simp
    from Cons.IH [OF this Cons.prems(2)] show ?thesis
      by (auto split: sum.splits list.splits)
  qed
qed

lemma Fix_init_fails:
  assumes "py_getitem x ''product_ids'' = Inr pids" "fc pids = Inr ys"
    and "JStr s \<in> set ys" "CHR '':'' \<notin> set s"
  shows "\<exists>e. Fix_init fc va x pm = Inl e"
  using assms Fix_components_fails [OF assms(3,4)]
  by (auto simp: Fix_init_def split: sum.splits)

lemma parse_remediation_wontfix_fails:
  assumes "py_getitem x ''category'' = Inr (JStr ''no_fix_planned'')"
    and "py_getitem x ''product_ids'' = Inr pids" "py_iter pids = Inr ys"
    and "JStr s \<in> set ys" "CHR '':'' \<notin> set s"
  shows "\<exists>e. parse_remediation fc va x self = Inl e"
proof -
  have "\<exists>e. add_wontfix x (JStr s) st = Inl e" for st
  proof -
    obtain e where "WontFix_init (JStr s) x (pmap st) = Inl e"
      using WontFix_init_one_segment_fails [OF assms(5)] by blast
    then show ?thesis by (simp add: add_wontfix_def)
  qed
  from for_each_fails [OF assms(4), of "add_wontfix x", OF this] assms(1-3)
  show ?thesis
    by (simp add: parse_remediation_def remediation_vendor_fix_def remediation_workaround_def
        remediation_no_fix_planned_def)
qed

lemma parse_remediation_fix_fails:
  assumes "py_getitem x ''category'' = Inr (JStr ''vendor_fix'')"
    and "py_getitem x ''product_ids'' = Inr pids" "fc pids = Inr ys"
    and "JStr s \<in> set ys" "CHR '':'' \<notin> set s"
  shows "\<exists>e. parse_remediation fc va x self = Inl e"
proof -
  obtain e where "Fix_init fc va x (pmap self) = Inl e"
    using Fix_init_fails [where fc = fc, OF assms(2-5)] by blast
  with assms(1) show ?thesis
    by (simp add: parse_remediation_def remediation_vendor_fix_def)
qed

text \<open>A remediation that always fails makes \<^verbatim>\<open>parse_packages\<close> fail.\<close>

lemma parse_packages_remediation_fails:
  assumes "py_getitem (raw self) ''vulnerabilities'' = Inr vs" "py_iter vs = Inr ks" "k \<in> set ks"
    and "py_getitem k ''remediations'' = Inr rs" "py_iter rs = Inr xs" "x \<in> set xs"
    and "\<And>st. \<exists>e. parse_remediation fc va x st = Inl e"
  shows "\<exists>e. parse_packages fc va self = Inl e"
proof -
  from assms(4) obtain kvs where k: "k = JObj kvs" by (cases k) auto
  with assms(4) have "py_contains ''remediations'' k = Inr True"
    by (auto split: option.splits dest: map_of_SomeD intro: rev_image_eqI)
  with assms(4,5) for_each_fails [OF assms(6), of "parse_remediation fc va", OF assms(7)]
  have rem: "\<And>st. \<exists>e. parse_remediations fc va k st = Inl e"
    by (simp add: parse_remediations_def)
  have "\<exists>e. parse_vulnerability fc va k st = Inl e" for st
  proof -
    obtain e where "parse_remediations fc va k st = Inl e"
      using rem by blast
    then show ?thesis by (simp add: parse_vulnerability_def)
  qed
  from for_each_fails [OF assms(3), of "parse_vulnerability fc va", OF this] assms(1,2)
  show ?thesis by (simp add: parse_packages_def)
qed

lemma VexPackages_init_fails:
  "(\<And>st. raw st = vexdata \<Longrightarrow> \<exists>e. parse_packages fc va st = Inl e) \<Longrightarrow>
   \<exists>e. VexPackages_init fc va vexdata = Inl e"
  by (auto simp: VexPackages_init_def VexPackages_new_def classify_def build_product_tree_def split: sum.splits)

text \<open>
  C3 (as amended). An identifier without a colon has a single segment. When such an
  identifier is listed in a \<^verbatim>\<open>no_fix_planned\<close> remediation, or is in the list that
  \<^verbatim>\<open>filter_components\<close> returns for a \<^verbatim>\<open>vendor_fix\<close> remediation, the construction of
  \<^verbatim>\<open>VexPackages\<close> ends in an exception, so no bucket is returned; the constructor that
  reaches the identifier raises \<^verbatim>\<open>ValueError\<close>.
\<close>

theorem one_segment_identifier_in_remediation:
  assumes seg: "CHR '':'' \<notin> set s"
    and vs: "py_getitem vexdata ''vulnerabilities'' = Inr vs" "py_iter vs = Inr ks" "k \<in> set ks"
    and rs: "py_getitem k ''remediations'' = Inr rs" "py_iter rs = Inr xs" "x \<in> set xs"
    and pids: "py_getitem x ''product_ids'' = Inr pids"
    and cat: "(py_getitem x ''category'' = Inr (JStr ''no_fix_planned'') \<and> py_iter pids = Inr ys)
            \<or> (py_getitem x ''category'' = Inr (JStr ''vendor_fix'') \<and> fc pids = Inr ys)"
    and listed: "JStr s \<in> set ys"
  shows "(\<exists>e. VexPackages_init fc va vexdata = Inl e)
       \<and> (\<forall>d pm. py_getitem x ''details'' = Inr d \<longrightarrow> WontFix_init (JStr s) x pm = Inl ValueError)
       \<and> (\<forall>pm zs f. Fix_components pm (JStr s # zs) f = Inl ValueError)"
proof -
  have x_fails: "\<exists>e. parse_remediation fc va x st = Inl e" for st
    using cat
  proof
    assume "py_getitem x ''category'' = Inr (JStr ''no_fix_planned'') \<and> py_iter pids = Inr ys"
    then show ?thesis
      using parse_remediation_wontfix_fails [OF _ pids _ listed seg] by blast
  next
    assume "py_getitem x ''category'' = Inr (JStr ''vendor_fix'') \<and> fc pids = Inr ys"
    then show ?thesis
      using parse_remediation_fix_fails [where fc = fc, OF _ pids _ listed seg] by blast
  qed
  have "\<exists>e. parse_packages fc va st = Inl e" if "raw st = vexdata" for st
    using parse_packages_remediation_fails [where fc = fc and va = va and self = st, OF _ vs(2,3) rs x_fails]
      vs(1) that by simp
  then have "\<exists>e. VexPackages_init fc va vexdata = Inl e"
    by (rule VexPackages_init_fails)
  then show ?thesis
    using seg by (simp add: WontFix_init_one_segment Fix_components_one_segment del: Fix_components.simps)
qed

theorem one_segment_identifier_in_remediation_witness:
  "CHR '':'' \<notin> set ''WID1''
   \<and> one_segment_wontfix \<in> set [one_segment_wontfix]
   \<and> py_getitem one_segment_wontfix ''category'' = Inr (JStr ''no_fix_planned'')
   \<and> py_getitem one_segment_wontfix ''product_ids'' = Inr (JArr [JStr ''WID1''])
   \<and> (\<exists>e. VexPackages_init keep_all example_vendors one_segment_wontfix_doc = Inl e)
   \<and> WontFix_init (JStr ''WID1'') one_segment_wontfix example_index = Inl ValueError"
proof -
  let ?k = "JObj [(''remediations'', JArr [one_segment_wontfix])]"
  have seg: "CHR '':'' \<notin> set ''WID1''" by simp
  have vs: "py_getitem one_segment_wontfix_doc ''vulnerabilities'' = Inr (JArr [?k])"
    by (simp add: one_segment_wontfix_doc_def example_doc_def)
  have ks: "py_iter (JArr [?k]) = Inr [?k]" "?k \<in> set [?k]" by simp_all
  have rs: "py_getitem ?k ''remediations'' = Inr (JArr [one_segment_wontfix])"
    "py_iter (JArr [one_segment_wontfix]) = Inr [one_segment_wontfix]"
    "one_segment_wontfix \<in> set [one_segment_wontfix]" by simp_all
  have pids: "py_getitem one_segment_wontfix ''product_ids'' = Inr (JArr [JStr ''WID1''])"
    by (simp add: one_segment_wontfix_def)
  have cat: "py_getitem one_segment_wontfix ''category'' = Inr (JStr ''no_fix_planned'')"
    by (simp add: one_segment_wontfix_def)
  have cat': "(py_getitem one_segment_wontfix ''category'' = Inr (JStr ''no_fix_planned'')
      \<and> py_iter (JArr [JStr ''WID1'']) = Inr [JStr ''WID1''])
      \<or> (py_getitem one_segment_wontfix ''category'' = Inr (JStr ''vendor_fix'')
      \<and> keep_all (JArr [JStr ''WID1'']) = Inr [JStr ''WID1''])"
    using cat by simp
  have listed: "JStr ''WID1'' \<in> set [JStr ''WID1'']" by simp
  have d: "py_getitem one_segment_wontfix ''details'' = Inr (JStr ''Out of support scope'')"
    by (simp add: one_segment_wontfix_def)
  from one_segment_identifier_in_remediation [where fc = keep_all and va = example_vendors,
      OF seg vs ks rs pids cat' listed] d seg rs(3) pids cat
  show ?thesis by blast
qed

text \<open>
  C3 (the claim as stated fails). A single-segment identifier in \<^verbatim>\<open>known_affected\<close> raises
  nothing: the document is classified, and the identifier becomes an \<^verbatim>\<open>Affected\<close> record
  whose product is looked up under the whole identifier and whose component is empty.
\<close>

theorem one_segment_identifier_in_status_counterexample:
  "VexPackages_init keep_all example_vendors one_segment_status_doc =
     Inr \<lparr>raw = one_segment_status_doc, pmap = example_index, fixes' = [], workarounds = [],
          wontfix = [],
          affected = [\<lparr>af_components = [''''], af_product = JStr ''Widget 1.0''\<rparr>],
          not_affected = []\<rparr>"
  by (simp add: VexPackages_init_def VexPackages_new_def classify_def build_product_tree_def
      one_segment_status_doc_def example_doc_def example_tree_def example_leaf_def
      build_product_tree_p_def build_product_tree_b_def build_product_tree_c_def
      parse_packages_def parse_vulnerability_def parse_remediations_def parse_product_status_def
      parse_status_def status_known_affected_def status_known_not_affected_def
      add_affected_def Affected_init_def keep_all_def example_index_def)


section \<open>Missing keys\<close>

text \<open>
  C5 (as amended). A vulnerability entry that is a dict without \<^verbatim>\<open>remediations\<close>, or without
  \<^verbatim>\<open>product_status\<close>, leaves the object as it is at that step and raises nothing; so
  does a second-level node of the product tree that is a dict without \<^verbatim>\<open>branches\<close>.
\<close>

theorem schema_gap:
  "(''remediations'' \<notin> fst ` set kvs \<longrightarrow> parse_remediations fc va (JObj kvs) self = Inr self)
   \<and> (''product_status'' \<notin> fst ` set kvs \<longrightarrow> parse_product_status fc (JObj kvs) self = Inr self)
   \<and> (''remediations'' \<notin> fst ` set kvs \<and> ''product_status'' \<notin> fst ` set kvs \<longrightarrow>
        parse_vulnerability fc va (JObj kvs) self = Inr self)
   \<and> (''branches'' \<notin> fst ` set kvs \<longrightarrow> build_product_tree_b (JObj kvs) pm = Inr pm)"
  by (simp add: parse_remediations_def parse_product_status_def parse_vulnerability_def
      build_product_tree_b_def)

theorem schema_gap_witness:
  "parse_vulnerability keep_all example_vendors (JObj [(''cve'', JStr ''CVE-2024-0001'')])
       (VexPackages_new JNull) = Inr (VexPackages_new JNull)
   \<and> build_product_tree_b example_leaf example_index = Inr example_index"
  using schema_gap [of "[(''cve'', JStr ''CVE-2024-0001'')]" keep_all example_vendors
      "VexPackages_new JNull"]
    schema_gap [of "[(''category'', JStr ''product_name''), (''name'', JStr ''Widget 1.0''),
        (''product'', JObj [(''product_id'', JStr ''WID1'')])]" keep_all example_vendors
      "VexPackages_new JNull" example_index]
  by (simp add: example_leaf_def)

text \<open>
  C5 (the claim as stated fails). A first-level node of the product tree without
  \<^verbatim>\<open>branches\<close> raises \<^verbatim>\<open>KeyError\<close>: the program subscripts it without a test.
\<close>

theorem schema_gap_first_level_counterexample:
  "py_contains ''branches'' example_leaf = Inr False
   \<and> VexPackages_init keep_all example_vendors (example_doc flat_tree []) = Inl KeyError"
  by (simp add: VexPackages_init_def VexPackages_new_def classify_def build_product_tree_def
      example_doc_def flat_tree_def example_leaf_def build_product_tree_p_def)


section \<open>The depth at which products are indexed\<close>

text \<open>
  Each of the three loop bodies appends to the index the entries of the \<^verbatim>\<open>product_name\<close>
  nodes it visits, so the index built by a loop is the concatenation of what its items
  contribute.
\<close>

lemma for_each_collect:
  assumes "\<And>x a r. x \<in> set xs \<Longrightarrow> body x a = Inr r \<Longrightarrow> map Some r = map Some a @ h x"
  shows "for_each body xs a = Inr r \<Longrightarrow> map Some r = map Some a @ concat (map h xs)"
  using assms
proof (induction xs arbitrary: a)
  case Nil
  then show ?case by simp
next
  case (Cons x xs)
  from Cons.prems(1) obtain a' where a': "body x a = Inr a'" and rest: "for_each body xs a' = Inr r"
    by (auto split: sum.splits)
  have "map Some a' = map Some a @ h x"
    using Cons.prems(2) [OF _ a'] by simp
  moreover have "map Some r = map Some a' @ concat (map h xs)"
    using Cons.IH [OF rest] Cons.prems(2) by simp
  ultimately show ?case by simp
qed

lemma concat_map_filter_single:
  "concat (map (\<lambda>c. map f (filter P [c])) cs) = map f (filter P cs)"
  by (induction cs) auto

lemma build_product_tree_c_collect:
  "build_product_tree_c c pm = Inr r \<Longrightarrow>
   map Some r = map Some pm @ map product_entry (filter is_product_name [c])"
  by (cases c)
    (auto simp: build_product_tree_c_def is_product_name_def product_entry_def
      map_of_eq_None_iff [symmetric] split: sum.splits option.splits if_splits)

lemma build_product_tree_b_collect:
  assumes "build_product_tree_b b pm = Inr r"
  shows "map Some r = map Some pm @ map product_entry (filter is_product_name (branches_of b))"
proof -
  from assms obtain kvs where b: "b = JObj kvs"
    by (cases b) (auto simp: build_product_tree_b_def)
  show ?thesis
  proof (cases "''branches'' \<in> fst ` set kvs")
    case False
    then have "map_of kvs ''branches'' = None" by (simp add: map_of_eq_None_iff)
    with assms b False show ?thesis
      by (simp add: build_product_tree_b_def branches_of_def)
  next
    case True
    with assms b obtain bs cs where bs: "py_getitem b ''branches'' = Inr bs"
      and cs: "py_iter bs = Inr cs" and loop: "for_each build_product_tree_c cs pm = Inr r"
      by (auto simp: build_product_tree_b_def split: sum.splits option.splits)
    from bs cs have "branches_of b = cs" by (simp add: branches_of_def)
    with for_each_collect [where h = "\<lambda>c. map product_entry (filter is_product_name [c])",
        OF build_product_tree_c_collect loop]
    show ?thesis by (simp only: concat_map_filter_single)
  qed
qed

lemma concat_nodes_at_depth_0: "concat (map (nodes_at_depth 0) xs) = xs"
  by (induction xs) simp_all

lemma nodes_at_depth_1: "nodes_at_depth (Suc 0) v = branches_of v"
  by (simp add: concat_nodes_at_depth_0)

lemma build_product_tree_p_collect:
  assumes "build_product_tree_p p pm = Inr r"
  shows "map Some r = map Some pm @
     map product_entry (filter is_product_name (nodes_at_depth 2 p))"
proof -
  from assms obtain bs bl where bs: "py_getitem p ''branches'' = Inr bs"
    and bl: "py_iter bs = Inr bl" and loop: "for_each build_product_tree_b bl pm = Inr r"
    by (auto simp: build_product_tree_p_def split: sum.splits)
  from bs bl have "branches_of p = bl" by (simp add: branches_of_def)
  moreover have "nodes_at_depth 2 p = concat (map branches_of (branches_of p))"
    by (simp add: numeral_2_eq_2 nodes_at_depth_1 [abs_def])
  ultimately show ?thesis
    using for_each_collect [where h = "\<lambda>b. map product_entry (filter is_product_name (branches_of b))",
        OF build_product_tree_b_collect loop]
    by (simp add: map_concat filter_concat comp_def)
qed

text \<open>
  C1 (as amended). When \<^verbatim>\<open>build_product_tree\<close> returns, the index holds, in document order,
  exactly one entry \<open>(product_id, name)\<close> for each node that lies exactly three levels
  below \<^verbatim>\<open>product_tree\<close> and whose category is \<^verbatim>\<open>product_name\<close>, and nothing else;
  no other attribute of the object changes.
\<close>

theorem product_index_depth_three:
  assumes "build_product_tree self = Inr self'"
  shows "\<exists>pt. py_getitem (raw self) ''product_tree'' = Inr pt
     \<and> self' = self\<lparr>pmap := pmap self'\<rparr>
     \<and> map Some (pmap self') =
         map product_entry (filter is_product_name (nodes_at_depth 3 pt))"
proof -
  from assms obtain pt bs ps pm where pt: "py_getitem (raw self) ''product_tree'' = Inr pt"
    and bs: "py_getitem pt ''branches'' = Inr bs" and ps: "py_iter bs = Inr ps"
    and loop: "for_each build_product_tree_p ps [] = Inr pm" and self': "self' = self\<lparr>pmap := pm\<rparr>"
    by (auto simp: build_product_tree_def split: sum.splits)
  from bs ps have "branches_of pt = ps" by (simp add: branches_of_def)
  then have "nodes_at_depth 3 pt = concat (map (nodes_at_depth 2) ps)"
    by (simp add: numeral_3_eq_3 numeral_2_eq_2)
  with for_each_collect [where h = "\<lambda>p. map product_entry (filter is_product_name (nodes_at_depth 2 p))",
      OF build_product_tree_p_collect loop]
  have "map Some pm = map product_entry (filter is_product_name (nodes_at_depth 3 pt))"
    by (simp add: map_concat filter_concat comp_def)
  with pt self' show ?thesis by simp
qed

theorem product_index_depth_three_witness:
  "build_product_tree (VexPackages_new (example_doc example_tree [])) =
     Inr ((VexPackages_new (example_doc example_tree []))\<lparr>pmap := example_index\<rparr>)
   \<and> map Some example_index =
       map product_entry (filter is_product_name (nodes_at_depth 3 example_tree))"
proof -
  have run: "build_product_tree (VexPackages_new (example_doc example_tree [])) =
     Inr ((VexPackages_new (example_doc example_tree []))\<lparr>pmap := example_index\<rparr>)"
    by (simp add: VexPackages_new_def build_product_tree_def example_doc_def example_tree_def
        example_leaf_def build_product_tree_p_def build_product_tree_b_def
        build_product_tree_c_def example_index_def)
  have "py_getitem (raw (VexPackages_new (example_doc example_tree []))) ''product_tree'' =
      Inr example_tree"
    by (simp add: VexPackages_new_def example_doc_def)
  with product_index_depth_three [OF run] run show ?thesis by simp
qed

text \<open>
  C1 (the claim as stated fails). A \<^verbatim>\<open>product_name\<close> node two levels below
  \<^verbatim>\<open>product_tree\<close> is not recorded: the index is built without error and is empty.
\<close>

theorem product_index_depth_two_counterexample:
  "filter is_product_name (nodes_at_depth 2 shallow_tree) = [example_leaf]
   \<and> product_entry example_leaf = Some (JStr ''WID1'', JStr ''Widget 1.0'')
   \<and> build_product_tree (VexPackages_new (example_doc shallow_tree [])) =
       Inr ((VexPackages_new (example_doc shallow_tree []))\<lparr>pmap := []\<rparr>)"
  by (simp add: VexPackages_new_def build_product_tree_def example_doc_def shallow_tree_def
      example_leaf_def build_product_tree_p_def build_product_tree_b_def
      numeral_2_eq_2 branches_of_def is_product_name_def product_entry_def)


section \<open>The end-to-end example\<close>

lemma end_to_end:
  "VexPackages_init keep_all example_vendors end_to_end_doc = Inr end_to_end_result"
  by (simp add: VexPackages_init_def VexPackages_new_def classify_def build_product_tree_def
      end_to_end_doc_def example_vulnerability_def example_fix_def example_doc_def
      example_tree_def example_leaf_def build_product_tree_p_def build_product_tree_b_def
      build_product_tree_c_def parse_packages_def parse_vulnerability_def
      parse_remediations_def parse_remediation_def remediation_vendor_fix_def
      remediation_workaround_def remediation_no_fix_planned_def Fix_init_def
      parse_product_status_def parse_status_def status_known_affected_def
      status_known_not_affected_def add_not_affected_def NotAffected_init_def keep_all_def
      example_vendors_def example_index_def end_to_end_result_def end_to_end_fix_def)


section \<open>Classifying twice\<close>

text \<open>
  The two methods are modelled as transformers of the object. None of the loops of
  \<^verbatim>\<open>parse_packages\<close> changes \<^verbatim>\<open>raw\<close> or \<^verbatim>\<open>pmap\<close>.
\<close>

lemma for_each_preserves:
  assumes "\<And>x a b. body x a = Inr b \<Longrightarrow> g b = g a"
  shows "for_each body xs s = Inr s' \<Longrightarrow> g s' = g s"
proof (induction xs arbitrary: s)
  case Nil
  then show ?case by simp
next
  case (Cons x xs)
  from Cons.prems obtain s1 where s1: "body x s = Inr s1" and rest: "for_each body xs s1 = Inr s'"
    by (auto split: sum.splits)
  from assms [OF s1] Cons.IH [OF rest] show ?case by simp
qed

lemma add_wontfix_inputs: "add_wontfix x y a = Inr b \<Longrightarrow> inputs b = inputs a"
  by (auto simp: add_wontfix_def inputs_def split: sum.splits)

lemma add_affected_inputs: "add_affected y a = Inr b \<Longrightarrow> inputs b = inputs a"
  by (auto simp: add_affected_def inputs_def split: sum.splits)

lemma add_not_affected_inputs: "add_not_affected y a = Inr b \<Longrightarrow> inputs b = inputs a"
  by (auto simp: add_not_affected_def inputs_def split: sum.splits)

lemma for_each_add_wontfix_inputs:
  "for_each (add_wontfix x) ys a = Inr b \<Longrightarrow> inputs b = inputs a"
  using for_each_preserves [where body = "add_wontfix x" and g = inputs] add_wontfix_inputs
  by blast

lemma for_each_add_affected_inputs:
  "for_each add_affected ys a = Inr b \<Longrightarrow> inputs b = inputs a"
  using for_each_preserves [where body = add_affected and g = inputs] add_affected_inputs
  by blast

lemma for_each_add_not_affected_inputs:
  "for_each add_not_affected ys a = Inr b \<Longrightarrow> inputs b = inputs a"
  using for_each_preserves [where body = add_not_affected and g = inputs]
    add_not_affected_inputs
  by blast

lemma remediation_vendor_fix_inputs:
  "remediation_vendor_fix fc va x a = Inr b \<Longrightarrow> inputs b = inputs a"
  by (auto simp: remediation_vendor_fix_def inputs_def split: sum.splits if_splits)

lemma remediation_workaround_inputs:
  "remediation_workaround fc x a = Inr b \<Longrightarrow> inputs b = inputs a"
  by (auto simp: remediation_workaround_def inputs_def split: sum.splits if_splits)

lemma remediation_no_fix_planned_inputs:
  "remediation_no_fix_planned x a = Inr b \<Longrightarrow> inputs b = inputs a"
  by (auto simp: remediation_no_fix_planned_def split: sum.splits if_splits
      dest: for_each_add_wontfix_inputs)

lemma parse_remediation_inputs:
  "parse_remediation fc va x a = Inr b \<Longrightarrow> inputs b = inputs a"
  by (auto simp: parse_remediation_def split: sum.splits
      dest!: remediation_vendor_fix_inputs remediation_workaround_inputs
        remediation_no_fix_planned_inputs)

lemma status_known_affected_inputs:
  "status_known_affected fc k x a = Inr b \<Longrightarrow> inputs b = inputs a"
  by (auto simp: status_known_affected_def split: sum.splits if_splits
      dest: for_each_add_affected_inputs)

lemma status_known_not_affected_inputs:
  "status_known_not_affected fc k x a = Inr b \<Longrightarrow> inputs b = inputs a"
  by (auto simp: status_known_not_affected_def split: sum.splits if_splits
      dest: for_each_add_not_affected_inputs)

lemma parse_status_inputs:
  "parse_status fc k x a = Inr b \<Longrightarrow> inputs b = inputs a"
  by (auto simp: parse_status_def split: sum.splits
      dest!: status_known_affected_inputs status_known_not_affected_inputs)

lemma for_each_parse_remediation_inputs:
  "for_each (parse_remediation fc va) xs a = Inr b \<Longrightarrow> inputs b = inputs a"
  using for_each_preserves [where body = "parse_remediation fc va" and g = inputs]
    parse_remediation_inputs
  by blast

lemma for_each_parse_status_inputs:
  "for_each (parse_status fc k) xs a = Inr b \<Longrightarrow> inputs b = inputs a"
  using for_each_preserves [where body = "parse_status fc k" and g = inputs]
    parse_status_inputs
  by blast

lemma parse_remediations_inputs:
  "parse_remediations fc va k a = Inr b \<Longrightarrow> inputs b = inputs a"
  by (auto simp: parse_remediations_def split: sum.splits bool.splits
      dest: for_each_parse_remediation_inputs)

lemma parse_product_status_inputs:
  "parse_product_status fc k a = Inr b \<Longrightarrow> inputs b = inputs a"
  by (auto simp: parse_product_status_def split: sum.splits bool.splits
      dest: for_each_parse_status_inputs)

lemma parse_vulnerability_inputs:
  "parse_vulnerability fc va k a = Inr b \<Longrightarrow> inputs b = inputs a"
  by (auto simp: parse_vulnerability_def split: sum.splits
      dest!: parse_remediations_inputs parse_product_status_inputs)

lemma for_each_parse_vulnerability_inputs:
  "for_each (parse_vulnerability fc va) ks a = Inr b \<Longrightarrow> inputs b = inputs a"
  using for_each_preserves [where body = "parse_vulnerability fc va" and g = inputs]
    parse_vulnerability_inputs
  by blast

lemma parse_packages_inputs:
  "parse_packages fc va a = Inr b \<Longrightarrow> inputs b = inputs a"
  by (auto simp: parse_packages_def split: sum.splits
      dest!: for_each_parse_vulnerability_inputs) (simp add: inputs_def)

lemma build_product_tree_raw:
  "build_product_tree a = Inr b \<Longrightarrow> raw b = raw a"
  by (auto simp: build_product_tree_def split: sum.splits)

lemma classify_raw:
  assumes "classify fc va a = Inr b" shows "raw b = raw a"
proof -
  from assms obtain a1 where "build_product_tree a = Inr a1" "parse_packages fc va a1 = Inr b"
    by (auto simp: classify_def split: sum.splits)
  then show ?thesis
    using build_product_tree_raw [of a a1] parse_packages_inputs [of fc va a1 b]
    by (simp add: inputs_def)
qed

lemma classify_depends_on_raw:
  assumes "raw s = raw s'"
  shows "classify fc va s = classify fc va s'"
proof -
  have reset: "s\<lparr>pmap := pm, fixes' := [], workarounds := [], wontfix := [], affected := [],
        not_affected := []\<rparr> =
      s'\<lparr>pmap := pm, fixes' := [], workarounds := [], wontfix := [], affected := [],
        not_affected := []\<rparr>" for pm
    using assms by (cases s, cases s') simp
  show ?thesis
    using assms
    by (simp add: classify_def build_product_tree_def parse_packages_def reset
        split: sum.splits)
qed

text \<open>
  C8. The outcome of index construction followed by classification depends on the
  document alone: two objects with the same \<^verbatim>\<open>raw\<close> end in the same state (or the same
  exception) whatever their other attributes held before, and running both methods again
  on the object they produced reproduces that object. Both methods reset the lists they
  fill, so nothing accumulates between runs.
\<close>

theorem classification_deterministic:
  "(raw s = raw s' \<longrightarrow> classify fc va s = classify fc va s')
   \<and> (classify fc va s = Inr t \<longrightarrow> classify fc va t = Inr t)"
proof (intro conjI impI)
  assume "raw s = raw s'"
  then show "classify fc va s = classify fc va s'" by (rule classify_depends_on_raw)
next
  assume run: "classify fc va s = Inr t"
  then have "raw t = raw s" by (rule classify_raw)
  from classify_depends_on_raw [OF this, of fc va] run
  show "classify fc va t = Inr t" by simp
qed

theorem classification_deterministic_witness:
  "raw (VexPackages_new end_to_end_doc) = raw end_to_end_result
   \<and> classify keep_all example_vendors (VexPackages_new end_to_end_doc) = Inr end_to_end_result
   \<and> classify keep_all example_vendors end_to_end_result = Inr end_to_end_result"
  using classification_deterministic [of "VexPackages_new end_to_end_doc" end_to_end_result
      keep_all example_vendors end_to_end_result] end_to_end
  by (simp add: VexPackages_init_def VexPackages_new_def end_to_end_result_def)


section \<open>Remediations without a planned fix\<close>

lemma length_2: "length xs = 2 \<longleftrightarrow> (\<exists>a b. xs = [a, b])"
  by (cases xs; cases "tl xs"; cases "tl (tl xs)") auto

lemma length_3: "length xs = 3 \<longleftrightarrow> (\<exists>a b c. xs = [a, b, c])"
  by (cases xs; cases "tl xs"; cases "tl (tl xs)"; cases "tl (tl (tl xs))") auto

lemma WontFix_init_iff: "WontFix_init y x pm = Inr w \<longleftrightarrow> wontfix_record x pm y w"
proof (cases y)
  case (JStr s)
  show ?thesis
  proof (cases "py_getitem x ''details''")
    case (Inl e)
    with JStr show ?thesis by (simp add: WontFix_init_def wontfix_record_def)
  next
    case (Inr d)
    show ?thesis
    proof (cases "length (str_split (CHR '':'') s) = 2")
      case True
      then obtain p c where "str_split (CHR '':'') s = [p, c]" by (auto simp: length_2)
      with JStr Inr show ?thesis
        by (auto simp: WontFix_init_def wontfix_record_def id_product_def id_component_def)
    next
      case False
      with JStr Inr show ?thesis
        by (auto simp: WontFix_init_def wontfix_record_def split: list.splits)
    qed
  qed
qed (simp_all add: WontFix_init_def wontfix_record_def split: sum.splits)

lemma for_each_add_wontfix_iff:
  "for_each (add_wontfix x) ys self = Inr self' \<longleftrightarrow>
     (\<exists>ws. list_all2 (wontfix_record x (pmap self)) ys ws
        \<and> self' = self\<lparr>wontfix := wontfix self @ ws\<rparr>)"
proof (induction ys arbitrary: self)
  case Nil
  then show ?case by auto
next
  case (Cons y ys)
  show ?case
  proof (cases "WontFix_init y x (pmap self)")
    case (Inl e)
    then have "\<not> wontfix_record x (pmap self) y w" for w
      using WontFix_init_iff [of y x "pmap self" w] by simp
    with Inl show ?thesis by (simp add: add_wontfix_def list_all2_Cons1)
  next
    case (Inr w)
    then have w: "wontfix_record x (pmap self) y w' \<longleftrightarrow> w' = w" for w'
      using WontFix_init_iff [of y x "pmap self" w'] by auto
    from Inr have "for_each (add_wontfix x) (y # ys) self = Inr self' \<longleftrightarrow>
        for_each (add_wontfix x) ys (self\<lparr>wontfix := wontfix self @ [w]\<rparr>) = Inr self'"
      by (simp add: add_wontfix_def)
    also have "\<dots> \<longleftrightarrow> (\<exists>ws. list_all2 (wontfix_record x (pmap self)) ys ws
        \<and> self' = self\<lparr>wontfix := wontfix self @ w # ws\<rparr>)"
      by (simp add: Cons.IH)
    also have "\<dots> \<longleftrightarrow> (\<exists>ws. list_all2 (wontfix_record x (pmap self)) (y # ys) ws
        \<and> self' = self\<lparr>wontfix := wontfix self @ ws\<rparr>)"
      by (auto simp: list_all2_Cons1 w)
    finally show ?thesis .
  qed
qed

lemma parse_remediation_no_fix_planned:
  "py_getitem x ''category'' = Inr (JStr ''no_fix_planned'') \<Longrightarrow>
   parse_remediation fc va x self =
     (case py_getitem x ''product_ids'' of
        Inl e \<Rightarrow> Inl e
      | Inr pids \<Rightarrow>
          (case py_iter pids of
             Inl e \<Rightarrow> Inl e
           | Inr ys \<Rightarrow> for_each (add_wontfix x) ys self))"
  by (simp add: parse_remediation_def remediation_vendor_fix_def remediation_workaround_def
      remediation_no_fix_planned_def)

lemma parse_remediation_vendor_fix:
  "py_getitem x ''category'' = Inr (JStr ''vendor_fix'') \<Longrightarrow>
   parse_remediation fc va x self =
     (case Fix_init fc va x (pmap self) of
        Inl e \<Rightarrow> Inl e
      | Inr f \<Rightarrow> Inr (self\<lparr>fixes' := fixes' self @ [f]\<rparr>))"
  by (simp add: parse_remediation_def remediation_vendor_fix_def remediation_workaround_def
      remediation_no_fix_planned_def split: sum.splits)

text \<open>
  What the program does with a remediation of category \<^verbatim>\<open>no_fix_planned\<close>: it is
  classified exactly when each item of its \<^verbatim>\<open>product_ids\<close> is a string of two segments
  (and the details are present); the records, one for each item in the order of the list
  and with no item filtered out, are then appended to \<^verbatim>\<open>wontfix\<close>.
\<close>

lemma no_fix_planned_records:
  assumes "py_getitem x ''category'' = Inr (JStr ''no_fix_planned'')"
  shows "parse_remediation fc va x self = Inr self' \<longleftrightarrow>
     (\<exists>pids ys ws. py_getitem x ''product_ids'' = Inr pids \<and> py_iter pids = Inr ys
        \<and> list_all2 (wontfix_record x (pmap self)) ys ws
        \<and> self' = self\<lparr>wontfix := wontfix self @ ws\<rparr>)"
  by (auto simp: parse_remediation_no_fix_planned [OF assms] for_each_add_wontfix_iff
      split: sum.splits)

lemma no_fix_planned_records_example:
  "py_getitem example_wontfix ''category'' = Inr (JStr ''no_fix_planned'')
   \<and> parse_remediation keep_all example_vendors example_wontfix end_to_end_result =
       Inr (end_to_end_result\<lparr>wontfix :=
         [\<lparr>wf_reason = JStr ''Out of support scope'', wf_component = ''widget'',
           wf_product = JStr ''Widget 1.0''\<rparr>,
          \<lparr>wf_reason = JStr ''Out of support scope'', wf_component = ''gadget'',
           wf_product = JNull\<rparr>]\<rparr>)"
proof -
  let ?ws = "[\<lparr>wf_reason = JStr ''Out of support scope'', wf_component = ''widget'',
           wf_product = JStr ''Widget 1.0''\<rparr>,
          \<lparr>wf_reason = JStr ''Out of support scope'', wf_component = ''gadget'',
           wf_product = JNull\<rparr>]"
  have cat: "py_getitem example_wontfix ''category'' = Inr (JStr ''no_fix_planned'')"
    by (simp add: example_wontfix_def)
  have "py_getitem example_wontfix ''product_ids'' =
        Inr (JArr [JStr ''WID1:widget'', JStr ''UNKNOWN:gadget''])
      \<and> py_iter (JArr [JStr ''WID1:widget'', JStr ''UNKNOWN:gadget'']) =
        Inr [JStr ''WID1:widget'', JStr ''UNKNOWN:gadget'']
      \<and> list_all2 (wontfix_record example_wontfix (pmap end_to_end_result))
        [JStr ''WID1:widget'', JStr ''UNKNOWN:gadget''] ?ws
      \<and> end_to_end_result\<lparr>wontfix := ?ws\<rparr> =
        end_to_end_result\<lparr>wontfix := wontfix end_to_end_result @ ?ws\<rparr>"
    by (simp add: example_wontfix_def wontfix_record_def id_product_def id_component_def
        end_to_end_result_def example_index_def)
  then have "\<exists>pids ys ws. py_getitem example_wontfix ''product_ids'' = Inr pids
      \<and> py_iter pids = Inr ys
      \<and> list_all2 (wontfix_record example_wontfix (pmap end_to_end_result)) ys ws
      \<and> end_to_end_result\<lparr>wontfix := ?ws\<rparr> =
        end_to_end_result\<lparr>wontfix := wontfix end_to_end_result @ ws\<rparr>"
    by blast
  with no_fix_planned_records [OF cat, of keep_all example_vendors end_to_end_result
      "end_to_end_result\<lparr>wontfix := ?ws\<rparr>"] cat
  show ?thesis by blast
qed

text \<open>
  C6 (evaluation at a remediation that lists \<^verbatim>\<open>"WID1:widget:1.0"\<close>). The identifier has
  three segments, product id, component and version. \<^verbatim>\<open>WontFix\<close> unpacks exactly two, so
  the remediation raises \<^verbatim>\<open>ValueError\<close> and emits no record, and a document holding it is
  not classified, whatever the filter and the vendor table are. \<^verbatim>\<open>Affected\<close> accepts the
  same identifier and keeps \<^verbatim>\<open>"widget:1.0"\<close> as its component.
\<close>

theorem no_fix_planned_three_segments:
  "parse_remediation fc va three_segment_wontfix self = Inl ValueError
   \<and> VexPackages_init fc va three_segment_wontfix_doc = Inl ValueError
   \<and> add_affected (JStr ''WID1:widget:1.0'') self =
       Inr (self\<lparr>affected := affected self @
         [\<lparr>af_components = [''widget:1.0''],
           af_product = product_lookup ''WID1'' (pmap self)\<rparr>]\<rparr>)"
  by (simp add: run_defs three_segment_wontfix_doc_def three_segment_wontfix_def)


section \<open>Vendor fixes\<close>

lemma py_last_nonempty: "xs \<noteq> [] \<Longrightarrow> py_last xs = Inr (last xs)"
  by (cases xs) simp_all

lemma Fix_vendors_result:
  "Fix_vendors va f = Inr f' \<Longrightarrow>
   (matching_markers va (fix_url f) = [] \<longrightarrow> f' = f)
   \<and> (matching_markers va (fix_url f) \<noteq> [] \<longrightarrow>
        (\<exists>u. fix_url f = JStr u
           \<and> f' = f\<lparr>fix_id := JStr (advisory_id (last (matching_markers va (fix_url f))) u),
                    fix_vendor := Present (snd (last (matching_markers va (fix_url f))))\<rparr>))"
proof (induction va arbitrary: f)
  case Nil
  then show ?case by (simp add: matching_markers_def)
next
  case (Cons m vs)
  obtain v vendor where m: "m = (v, vendor)" by (cases m)
  from Cons.prems m obtain hit where hit: "py_contains v (fix_url f) = Inr hit"
    by (auto split: sum.splits)
  show ?case
  proof (cases hit)
    case False
    with hit m Cons.prems have "Fix_vendors vs f = Inr f'" by simp
    from Cons.IH [OF this] hit False m show ?thesis
      by (simp add: matching_markers_def)
  next
    case True
    with hit m Cons.prems obtain u where u: "fix_url f = JStr u"
      by (cases "fix_url f") (auto split: sum.splits)
    let ?f1 = "f\<lparr>fix_id := JStr (advisory_id (v, vendor) u), fix_vendor := Present vendor\<rparr>"
    from True hit m u Cons.prems have rest: "Fix_vendors vs ?f1 = Inr f'"
      by (cases "vendor = ''Gentoo''")
        (simp_all add: py_last_nonempty str_split_nonempty advisory_id_def)
    have mm: "matching_markers (m # vs) (fix_url f) = (v, vendor) # matching_markers vs (fix_url f)"
      using hit True m by (simp add: matching_markers_def)
    from Cons.IH [OF rest] u mm show ?thesis
      by (cases "matching_markers vs (JStr u) = []") auto
  qed
qed

lemma Fix_vendors_no_marker:
  "\<forall>m\<in>set va. \<not> str_contains (fst m) u \<Longrightarrow> fix_url f = JStr u \<Longrightarrow> Fix_vendors va f = Inr f"
  by (induction va) auto

lemma matching_markers_none:
  "\<forall>m\<in>set va. \<not> str_contains (fst m) u \<Longrightarrow> matching_markers va (JStr u) = []"
  by (induction va) (auto simp: matching_markers_def)

lemma Fix_components_result:
  "Fix_components pm ys f = Inr f' \<Longrightarrow>
   fix_id f' = fix_id f \<and> fix_url f' = fix_url f \<and> fix_vendor f' = fix_vendor f
   \<and> (\<exists>cs. list_all2 fix_component ys cs \<and> fix_components f' = fix_components f @ cs)
   \<and> (ys = [] \<longrightarrow> fix_product f' = fix_product f)
   \<and> (ys \<noteq> [] \<longrightarrow>
        (\<exists>s. last ys = JStr s \<and> fix_product f' = Present (product_lookup (id_product s) pm)))"
proof (induction ys arbitrary: f)
  case Nil
  then show ?case by simp
next
  case (Cons y ys)
  from Cons.prems obtain s where y: "y = JStr s" by (cases y) auto
  with Cons.prems obtain p c v where segs: "str_split (CHR '':'') s = [p, c, v]"
    by (auto split: list.splits)
  let ?f1 = "f\<lparr>fix_components := fix_components f @ [str_join '':'' [c, v]],
               fix_product := Present (product_lookup p pm)\<rparr>"
  from Cons.prems y segs have rest: "Fix_components pm ys ?f1 = Inr f'" by simp
  have comp: "fix_component y (str_join '':'' [c, v])"
    using y segs by (simp add: fix_component_def id_component_def)
  have prod: "id_product s = p" using segs by (simp add: id_product_def)
  from Cons.IH [OF rest] obtain cs where cs: "list_all2 fix_component ys cs"
    "fix_components f' = (fix_components f @ [str_join '':'' [c, v]]) @ cs"
    by auto
  from cs comp have "list_all2 fix_component (y # ys) (str_join '':'' [c, v] # cs)
      \<and> fix_components f' = fix_components f @ str_join '':'' [c, v] # cs"
    by simp
  then have ex: "\<exists>cs. list_all2 fix_component (y # ys) cs
      \<and> fix_components f' = fix_components f @ cs" by blast
  from Cons.IH [OF rest] ex y prod show ?case
    by (cases "ys = []") auto
qed

lemma Fix_components_succeeds:
  "\<forall>y\<in>set ys. \<exists>c. fix_component y c \<Longrightarrow> \<exists>f'. Fix_components pm ys f = Inr f'"
proof (induction ys arbitrary: f)
  case Nil
  then show ?case by simp
next
  case (Cons y ys)
  from Cons.prems obtain s where y: "y = JStr s" and "length (str_split (CHR '':'') s) = 3"
    by (cases y) (auto simp: fix_component_def)
  then obtain p c v where segs: "str_split (CHR '':'') s = [p, c, v]"
    by (auto simp: length_3)
  from Cons.prems have "\<forall>y\<in>set ys. \<exists>c. fix_component y c" by simp
  from Cons.IH [OF this] y segs show ?case by simp
qed

lemma Fix_init_result:
  assumes "Fix_init fc va x pm = Inr f"
  obtains url f0 pids ys where "py_getitem x ''url'' = Inr url"
    and "Fix_vendors va \<lparr>fix_id = JNull, fix_url = url, fix_components = [],
           fix_vendor = Absent, fix_product = Absent\<rparr> = Inr f0"
    and "py_getitem x ''product_ids'' = Inr pids" and "fc pids = Inr ys"
    and "Fix_components pm ys f0 = Inr f"
  using assms by (auto simp: Fix_init_def split: sum.splits)

lemma gentoo_fix_init:
  "Fix_init keep_all example_vendors gentoo_fix two_product_index = Inr gentoo_fix_record"
  by (simp add: Fix_init_def gentoo_fix_def keep_all_def example_vendors_def
      two_product_index_def gentoo_fix_record_def)

lemma unmarked_fix_init:
  "Fix_init keep_all example_vendors unmarked_fix two_product_index = Inr unmarked_fix_record"
  by (simp add: Fix_init_def unmarked_fix_def keep_all_def example_vendors_def
      two_product_index_def unmarked_fix_record_def)

text \<open>
  C7 (as amended). A \<^verbatim>\<open>vendor_fix\<close> remediation that is classified adds exactly one \<^verbatim>\<open>Fix\<close>
  record, whose components are those of all the identifiers that \<^verbatim>\<open>filter_components\<close>
  returned, in order. When some marker of the vendor table occurs in the URL, the advisory
  id is the last \<^verbatim>\<open>/\<close>-separated segment of the URL, prefixed with the marker and a hyphen
  when the vendor is Gentoo; the marker that counts is the last one of the table that
  occurs in the URL. When no marker occurs the id is \<^verbatim>\<open>None\<close>.
\<close>

theorem vendor_fix_record:
  assumes "py_getitem x ''category'' = Inr (JStr ''vendor_fix'')"
    and "parse_remediation fc va x self = Inr self'"
  shows "\<exists>f url pids ys. self' = self\<lparr>fixes' := fixes' self @ [f]\<rparr>
     \<and> py_getitem x ''url'' = Inr url \<and> fix_url f = url
     \<and> py_getitem x ''product_ids'' = Inr pids \<and> fc pids = Inr ys
     \<and> list_all2 fix_component ys (fix_components f)
     \<and> (matching_markers va url = [] \<longrightarrow> fix_id f = JNull \<and> fix_vendor f = Absent)
     \<and> (matching_markers va url \<noteq> [] \<longrightarrow>
          (\<exists>u. url = JStr u
             \<and> fix_id f = JStr (advisory_id (last (matching_markers va url)) u)
             \<and> fix_vendor f = Present (snd (last (matching_markers va url)))))"
proof -
  from assms obtain f where f: "Fix_init fc va x (pmap self) = Inr f"
    and self': "self' = self\<lparr>fixes' := fixes' self @ [f]\<rparr>"
    by (auto simp: parse_remediation_vendor_fix split: sum.splits)
  let ?f0 = "\<lambda>url. \<lparr>fix_id = JNull, fix_url = url, fix_components = [],
           fix_vendor = Absent, fix_product = Absent\<rparr>"
  from f obtain url f0 pids ys where url: "py_getitem x ''url'' = Inr url"
    and f0: "Fix_vendors va (?f0 url) = Inr f0"
    and pids: "py_getitem x ''product_ids'' = Inr pids" and ys: "fc pids = Inr ys"
    and comps: "Fix_components (pmap self) ys f0 = Inr f"
    by (auto elim!: Fix_init_result)
  note v = Fix_vendors_result [OF f0]
  note c = Fix_components_result [OF comps]
  have f0_comps: "fix_components f0 = []" and f0_url: "fix_url f0 = url"
    using v by (cases "matching_markers va url = []"; auto)+
  from c f0_comps have "list_all2 fix_component ys (fix_components f)" by auto
  moreover from c f0_url have "fix_url f = url" by simp
  moreover have "matching_markers va url = [] \<longrightarrow> fix_id f = JNull \<and> fix_vendor f = Absent"
    using v c by auto
  moreover have "matching_markers va url \<noteq> [] \<longrightarrow>
      (\<exists>u. url = JStr u
         \<and> fix_id f = JStr (advisory_id (last (matching_markers va url)) u)
         \<and> fix_vendor f = Present (snd (last (matching_markers va url))))"
    using v c by auto
  ultimately show ?thesis using self' url pids ys by blast
qed

theorem vendor_fix_record_witness:
  "py_getitem gentoo_fix ''category'' = Inr (JStr ''vendor_fix'')
   \<and> parse_remediation keep_all example_vendors gentoo_fix two_product_object =
       Inr (two_product_object\<lparr>fixes' := fixes' two_product_object @ [gentoo_fix_record]\<rparr>)
   \<and> matching_markers example_vendors (JStr ''https://example.org/GLSA/202401-01'') =
       [(''GLSA'', ''Gentoo'')]
   \<and> fix_id gentoo_fix_record =
       JStr (advisory_id (''GLSA'', ''Gentoo'') ''https://example.org/GLSA/202401-01'')
   \<and> list_all2 fix_component [JStr ''WID1:widget:1.0-2'', JStr ''GAD2:gadget:2.0-1'']
       (fix_components gentoo_fix_record)"
proof -
  let ?obj = "two_product_object\<lparr>fixes' := fixes' two_product_object @ [gentoo_fix_record]\<rparr>"
  have cat: "py_getitem gentoo_fix ''category'' = Inr (JStr ''vendor_fix'')"
    by (simp add: gentoo_fix_def)
  have run: "parse_remediation keep_all example_vendors gentoo_fix two_product_object = Inr ?obj"
    using gentoo_fix_init
    by (simp add: parse_remediation_vendor_fix [OF cat] two_product_object_def)
  have mm: "matching_markers example_vendors (JStr ''https://example.org/GLSA/202401-01'') =
       [(''GLSA'', ''Gentoo'')]"
    by (simp add: matching_markers_def example_vendors_def)
  from vendor_fix_record [OF cat run] obtain f url pids ys
    where f: "?obj = two_product_object\<lparr>fixes' := fixes' two_product_object @ [f]\<rparr>"
      and url: "py_getitem gentoo_fix ''url'' = Inr url"
      and pids: "py_getitem gentoo_fix ''product_ids'' = Inr pids" and ys: "keep_all pids = Inr ys"
      and comps: "list_all2 fix_component ys (fix_components f)"
      and ident: "matching_markers example_vendors url \<noteq> [] \<longrightarrow>
        (\<exists>u. url = JStr u
           \<and> fix_id f = JStr (advisory_id (last (matching_markers example_vendors url)) u)
           \<and> fix_vendor f = Present (snd (last (matching_markers example_vendors url))))"
    by blast
  from f have "fixes' ?obj = fixes' (two_product_object\<lparr>fixes' := fixes' two_product_object @ [f]\<rparr>)"
    by simp
  then have f_eq: "f = gentoo_fix_record" by simp
  from url have url_eq: "url = JStr ''https://example.org/GLSA/202401-01''"
    by (simp add: gentoo_fix_def)
  from pids ys have ys_eq: "ys = [JStr ''WID1:widget:1.0-2'', JStr ''GAD2:gadget:2.0-1'']"
    by (auto simp: gentoo_fix_def keep_all_def)
  from ident url_eq mm f_eq have "fix_id gentoo_fix_record =
      JStr (advisory_id (''GLSA'', ''Gentoo'') ''https://example.org/GLSA/202401-01'')"
    by simp
  with cat run mm comps f_eq ys_eq show ?thesis by simp
qed

text \<open>
  C7 (the claim as stated fails). For a URL in which no marker occurs the advisory id is
  \<^verbatim>\<open>None\<close>, not the last segment of the URL.
\<close>

theorem vendor_fix_unmarked_url_counterexample:
  "py_getitem unmarked_fix ''category'' = Inr (JStr ''vendor_fix'')
   \<and> py_getitem unmarked_fix ''url'' = Inr (JStr ''https://example.org/advisories/ADV-1'')
   \<and> last (str_split (CHR ''/'') ''https://example.org/advisories/ADV-1'') = ''ADV-1''
   \<and> parse_remediation keep_all example_vendors unmarked_fix two_product_object =
       Inr (two_product_object\<lparr>fixes' := [unmarked_fix_record]\<rparr>)
   \<and> fix_id unmarked_fix_record = JNull"
proof -
  have cat: "py_getitem unmarked_fix ''category'' = Inr (JStr ''vendor_fix'')"
    by (simp add: unmarked_fix_def)
  have "parse_remediation keep_all example_vendors unmarked_fix two_product_object =
       Inr (two_product_object\<lparr>fixes' := [unmarked_fix_record]\<rparr>)"
    using unmarked_fix_init
    by (simp add: parse_remediation_vendor_fix [OF cat] two_product_object_def
        VexPackages_new_def)
  with cat show ?thesis
    by (simp add: unmarked_fix_def unmarked_fix_record_def)
qed

text \<open>
  C9. The product of a \<^verbatim>\<open>Fix\<close> record is the product that the index gives for the last
  identifier of the filtered list, whatever products the earlier identifiers name; when
  the filtered list is empty the attribute is never assigned.
\<close>

theorem fix_product_is_last:
  assumes "Fix_init fc va x pm = Inr f"
  shows "\<exists>pids ys. py_getitem x ''product_ids'' = Inr pids \<and> fc pids = Inr ys
     \<and> (ys = [] \<longrightarrow> fix_product f = Absent)
     \<and> (ys \<noteq> [] \<longrightarrow>
          (\<exists>s. last ys = JStr s \<and> fix_product f = Present (product_lookup (id_product s) pm)))"
proof -
  let ?f0 = "\<lambda>url. \<lparr>fix_id = JNull, fix_url = url, fix_components = [],
           fix_vendor = Absent, fix_product = Absent\<rparr>"
  from assms obtain url f0 pids ys where url: "py_getitem x ''url'' = Inr url"
    and f0: "Fix_vendors va (?f0 url) = Inr f0"
    and pids: "py_getitem x ''product_ids'' = Inr pids" and ys: "fc pids = Inr ys"
    and comps: "Fix_components pm ys f0 = Inr f"
    by (auto elim!: Fix_init_result)
  note v = Fix_vendors_result [OF f0]
  note c = Fix_components_result [OF comps]
  have "fix_product f0 = Absent"
    using v by (cases "matching_markers va url = []") auto
  with c pids ys show ?thesis by auto
qed

theorem fix_product_is_last_witness:
  "Fix_init keep_all example_vendors gentoo_fix two_product_index = Inr gentoo_fix_record
   \<and> keep_all (JArr [JStr ''WID1:widget:1.0-2'', JStr ''GAD2:gadget:2.0-1'']) =
       Inr [JStr ''WID1:widget:1.0-2'', JStr ''GAD2:gadget:2.0-1'']
   \<and> product_lookup (id_product ''WID1:widget:1.0-2'') two_product_index = JStr ''Widget 1.0''
   \<and> fix_product gentoo_fix_record =
       Present (product_lookup (id_product ''GAD2:gadget:2.0-1'') two_product_index)
   \<and> fix_product gentoo_fix_record = Present (JStr ''Gadget 2.0'')
   \<and> Fix_init keep_all example_vendors empty_fix two_product_index = Inr empty_fix_record
   \<and> fix_product empty_fix_record = Absent"
proof -
  have e: "Fix_init keep_all example_vendors empty_fix two_product_index = Inr empty_fix_record"
    by (simp add: Fix_init_def empty_fix_def keep_all_def example_vendors_def
        empty_fix_record_def)
  have k: "keep_all (JArr [JStr ''WID1:widget:1.0-2'', JStr ''GAD2:gadget:2.0-1'']) =
       Inr [JStr ''WID1:widget:1.0-2'', JStr ''GAD2:gadget:2.0-1'']"
    by (simp add: keep_all_def)
  have l: "product_lookup (id_product ''WID1:widget:1.0-2'') two_product_index = JStr ''Widget 1.0''"
    "fix_product gentoo_fix_record = Present (JStr ''Gadget 2.0'')"
    by (simp_all add: id_product_def two_product_index_def gentoo_fix_record_def)
  from fix_product_is_last [OF gentoo_fix_init] obtain pids ys
    where pids: "py_getitem gentoo_fix ''product_ids'' = Inr pids" and ys: "keep_all pids = Inr ys"
      and last_id: "ys \<noteq> [] \<longrightarrow> (\<exists>s. last ys = JStr s
        \<and> fix_product gentoo_fix_record =
            Present (product_lookup (id_product s) two_product_index))"
    by blast
  from pids ys have "ys = [JStr ''WID1:widget:1.0-2'', JStr ''GAD2:gadget:2.0-1'']"
    by (auto simp: gentoo_fix_def keep_all_def)
  with last_id have g: "fix_product gentoo_fix_record =
      Present (product_lookup (id_product ''GAD2:gadget:2.0-1'') two_product_index)"
    by simp
  from fix_product_is_last [OF e] obtain pids' ys'
    where pids': "py_getitem empty_fix ''product_ids'' = Inr pids'"
      and ys': "keep_all pids' = Inr ys'"
      and none: "ys' = [] \<longrightarrow> fix_product empty_fix_record = Absent"
    by blast
  from pids' ys' have "ys' = []" by (auto simp: empty_fix_def keep_all_def)
  with none have "fix_product empty_fix_record = Absent" by simp
  with gentoo_fix_init e k l g show ?thesis by simp
qed

text \<open>
  C10. When the URL of a \<^verbatim>\<open>vendor_fix\<close> remediation is a string in which no marker of the
  vendor table occurs, every \<^verbatim>\<open>Fix\<close> record built from it has \<^verbatim>\<open>None\<close> as its id and no
  \<^verbatim>\<open>vendor\<close> attribute; and the record is built and appended to \<^verbatim>\<open>fixes\<close> whenever the
  filtered identifiers have three segments each.
\<close>

theorem unmarked_url_fix:
  assumes "py_getitem x ''url'' = Inr (JStr u)"
    and "\<forall>m\<in>set va. \<not> str_contains (fst m) u"
  shows "(\<forall>f. Fix_init fc va x pm = Inr f \<longrightarrow>
            fix_id f = JNull \<and> fix_vendor f = Absent \<and> fix_url f = JStr u)
     \<and> (\<forall>self pids ys.
          py_getitem x ''category'' = Inr (JStr ''vendor_fix'')
          \<and> py_getitem x ''product_ids'' = Inr pids \<and> fc pids = Inr ys
          \<and> (\<forall>y\<in>set ys. \<exists>c. fix_component y c) \<longrightarrow>
          (\<exists>f. fix_id f = JNull \<and> fix_vendor f = Absent
             \<and> parse_remediation fc va x self = Inr (self\<lparr>fixes' := fixes' self @ [f]\<rparr>)))"
proof -
  let ?f0 = "\<lparr>fix_id = JNull, fix_url = JStr u, fix_components = [],
           fix_vendor = Absent, fix_product = Absent\<rparr>"
  have v: "Fix_vendors va ?f0 = Inr ?f0"
    using Fix_vendors_no_marker [OF assms(2)] by simp
  have unfold: "Fix_init fc va x pm' =
      (case py_getitem x ''product_ids'' of Inl e \<Rightarrow> Inl e
       | Inr pids \<Rightarrow> (case fc pids of Inl e \<Rightarrow> Inl e
          | Inr ys \<Rightarrow> Fix_components pm' ys ?f0))" for pm'
    using assms(1) v by (simp add: Fix_init_def)
  have 1: "fix_id f = JNull \<and> fix_vendor f = Absent \<and> fix_url f = JStr u"
    if "Fix_init fc va x pm' = Inr f" for f pm'
    using that Fix_components_result [of pm' _ ?f0 f]
    by (auto simp: unfold split: sum.splits)
  have 2: "\<exists>f. fix_id f = JNull \<and> fix_vendor f = Absent
      \<and> parse_remediation fc va x self = Inr (self\<lparr>fixes' := fixes' self @ [f]\<rparr>)"
    if cat: "py_getitem x ''category'' = Inr (JStr ''vendor_fix'')"
      and pids: "py_getitem x ''product_ids'' = Inr pids" and ys: "fc pids = Inr ys"
      and wf: "\<forall>y\<in>set ys. \<exists>c. fix_component y c" for self pids ys
  proof -
    from Fix_components_succeeds [OF wf] obtain f
      where "Fix_components (pmap self) ys ?f0 = Inr f" by blast
    with pids ys have f: "Fix_init fc va x (pmap self) = Inr f" by (simp add: unfold)
    with 1 [OF f] show ?thesis by (auto simp: parse_remediation_vendor_fix [OF cat])
  qed
  from 1 2 show ?thesis by blast
qed

theorem unmarked_url_fix_witness:
  "py_getitem unmarked_fix ''url'' = Inr (JStr ''https://example.org/advisories/ADV-1'')
   \<and> \<not> str_contains ''RHSA'' ''https://example.org/advisories/ADV-1''
   \<and> \<not> str_contains ''GLSA'' ''https://example.org/advisories/ADV-1''
   \<and> Fix_init keep_all example_vendors unmarked_fix two_product_index = Inr unmarked_fix_record
   \<and> fix_id unmarked_fix_record = JNull \<and> fix_vendor unmarked_fix_record = Absent
   \<and> parse_remediation keep_all example_vendors unmarked_fix two_product_object =
       Inr (two_product_object\<lparr>fixes' := fixes' two_product_object @ [unmarked_fix_record]\<rparr>)"
proof -
  have url: "py_getitem unmarked_fix ''url'' = Inr (JStr ''https://example.org/advisories/ADV-1'')"
    by (simp add: unmarked_fix_def)
  have no_rhsa: "\<not> str_contains ''RHSA'' ''https://example.org/advisories/ADV-1''"
    and no_glsa: "\<not> str_contains ''GLSA'' ''https://example.org/advisories/ADV-1''"
    by simp_all
  then have none: "\<forall>m\<in>set example_vendors.
      \<not> str_contains (fst m) ''https://example.org/advisories/ADV-1''"
    by (simp add: example_vendors_def)
  have cat: "py_getitem unmarked_fix ''category'' = Inr (JStr ''vendor_fix'')"
    by (simp add: unmarked_fix_def)
  have run: "parse_remediation keep_all example_vendors unmarked_fix two_product_object =
      Inr (two_product_object\<lparr>fixes' := fixes' two_product_object @ [unmarked_fix_record]\<rparr>)"
    using unmarked_fix_init
    by (simp add: parse_remediation_vendor_fix [OF cat] two_product_object_def)
  from unmarked_url_fix [OF url none, of keep_all two_product_index] unmarked_fix_init
  have "fix_id unmarked_fix_record = JNull \<and> fix_vendor unmarked_fix_record = Absent"
    by blast
  with url no_rhsa no_glsa unmarked_fix_init run show ?thesis by simp
qed


section \<open>Product ids that the index does not hold\<close>

text \<open>
  The loops over the identifiers of a status list append one record for each string, in
  order; a remediation that is classified does the same for its \<^verbatim>\<open>WontFix\<close> records, and
  its \<^verbatim>\<open>Fix\<close> record takes the product of the last identifier.
\<close>

lemma for_each_add_affected_strings:
  "for_each add_affected (map JStr ss) self =
     Inr (self\<lparr>affected := affected self @ map (affected_of (pmap self)) ss\<rparr>)"
  by (induction ss arbitrary: self)
    (simp_all add: add_affected_def Affected_init_string affected_of_def)

lemma for_each_add_not_affected_strings:
  "for_each add_not_affected (map JStr ss) self =
     Inr (self\<lparr>not_affected := not_affected self @ map (not_affected_of (pmap self)) ss\<rparr>)"
  by (induction ss arbitrary: self)
    (simp_all add: add_not_affected_def NotAffected_init_string not_affected_of_def)

lemma parse_status_known_affected:
  assumes "py_getitem k ''product_status'' = Inr ps" "py_getitem ps ''known_affected'' = Inr ids"
    and "fc ids = Inr (map JStr ss)"
  shows "parse_status fc k (JStr ''known_affected'') self =
     Inr (self\<lparr>affected := affected self @ map (affected_of (pmap self)) ss\<rparr>)"
  using assms
  by (simp add: parse_status_def status_known_affected_def status_known_not_affected_def
      for_each_add_affected_strings)

lemma parse_status_known_not_affected:
  assumes "py_getitem k ''product_status'' = Inr ps"
    and "py_getitem ps ''known_not_affected'' = Inr ids"
    and "fc ids = Inr (map JStr ss)"
  shows "parse_status fc k (JStr ''known_not_affected'') self =
     Inr (self\<lparr>not_affected := not_affected self @ map (not_affected_of (pmap self)) ss\<rparr>)"
  using assms
  by (simp add: parse_status_def status_known_affected_def status_known_not_affected_def
      for_each_add_not_affected_strings)

lemma wontfix_records_map:
  "list_all2 (wontfix_record x pm) (map JStr ss) ws \<Longrightarrow> py_getitem x ''details'' = Inr d \<Longrightarrow>
   ws = map (wontfix_of d pm) ss"
  by (induction ss arbitrary: ws)
    (auto simp: list_all2_Cons1 wontfix_record_def wontfix_of_def)

lemma wontfix_records_details:
  "list_all2 (wontfix_record x pm) (map JStr ss) ws \<Longrightarrow> ss \<noteq> [] \<Longrightarrow>
   \<exists>d. py_getitem x ''details'' = Inr d"
  by (cases ss; cases "py_getitem x ''details''")
    (auto simp: list_all2_Cons1 wontfix_record_def)

lemma parse_remediation_wontfix_strings:
  assumes cat: "py_getitem x ''category'' = Inr (JStr ''no_fix_planned'')"
    and pids: "py_getitem x ''product_ids'' = Inr pids" "py_iter pids = Inr (map JStr ss)"
    and ne: "ss \<noteq> []"
    and run: "parse_remediation fc va x self = Inr self'"
  shows "\<exists>d. py_getitem x ''details'' = Inr d
     \<and> self' = self\<lparr>wontfix := wontfix self @ map (wontfix_of d (pmap self)) ss\<rparr>"
proof -
  from run pids obtain ws where ws: "list_all2 (wontfix_record x (pmap self)) (map JStr ss) ws"
    and self': "self' = self\<lparr>wontfix := wontfix self @ ws\<rparr>"
    by (auto simp: parse_remediation_no_fix_planned [OF cat] for_each_add_wontfix_iff)
  from wontfix_records_details [OF ws ne] obtain d where d: "py_getitem x ''details'' = Inr d"
    by blast
  from wontfix_records_map [OF ws d] self' d show ?thesis by simp
qed

lemma parse_remediation_fix_last:
  assumes cat: "py_getitem x ''category'' = Inr (JStr ''vendor_fix'')"
    and pids: "py_getitem x ''product_ids'' = Inr pids" "fc pids = Inr (ys @ [JStr s])"
    and run: "parse_remediation fc va x self = Inr self'"
  shows "\<exists>f. self' = self\<lparr>fixes' := fixes' self @ [f]\<rparr>
     \<and> fix_product f = Present (product_lookup (id_product s) (pmap self))
     \<and> fix_components f \<noteq> [] \<and> last (fix_components f) = id_component s"
proof -
  from run obtain f where f: "Fix_init fc va x (pmap self) = Inr f"
    and self': "self' = self\<lparr>fixes' := fixes' self @ [f]\<rparr>"
    by (auto simp: parse_remediation_vendor_fix [OF cat] split: sum.splits)
  from f pids obtain f0 where comps: "Fix_components (pmap self) (ys @ [JStr s]) f0 = Inr f"
    by (auto elim!: Fix_init_result)
  from Fix_components_result [OF comps] obtain cs
    where cs: "list_all2 fix_component (ys @ [JStr s]) cs"
      "fix_components f = fix_components f0 @ cs"
      and prod: "fix_product f = Present (product_lookup (id_product s) (pmap self))"
    by auto
  from cs(1) obtain cs' c where "cs = cs' @ [c]" "fix_component (JStr s) c"
    by (auto simp: list_all2_append1 list_all2_Cons1)
  then have "cs \<noteq> [] \<and> last cs = id_component s" by (simp add: fix_component_def)
  with cs(2) have "fix_components f \<noteq> [] \<and> last (fix_components f) = id_component s"
    by simp
  with self' prod show ?thesis by blast
qed

lemma unresolved_doc_run:
  "VexPackages_init keep_all example_vendors unresolved_doc = Inr unresolved_result"
  by (simp add: run_defs unresolved_doc_def unresolved_vulnerability_def unresolved_fix_def
      unresolved_wontfix_def keep_all_def example_vendors_def example_index_def
      unresolved_result_def)

text \<open>
  C4 (as amended). When the product id of an identifier is not a key of the index,
  \<^verbatim>\<open>product_lookup\<close> raises nothing and returns \<^verbatim>\<open>None\<close>. Wherever the identifier stands in
  the filtered \<^verbatim>\<open>known_affected\<close> or \<^verbatim>\<open>known_not_affected\<close> list, the classifier appends
  its own record at that place, with \<^verbatim>\<open>None\<close> as the product. A \<^verbatim>\<open>no_fix_planned\<close>
  remediation that is classified holds a \<^verbatim>\<open>WontFix\<close> record for it, with \<^verbatim>\<open>None\<close> as the
  product. A \<^verbatim>\<open>vendor_fix\<close> remediation that is classified adds one \<^verbatim>\<open>Fix\<close> record that
  holds the component of the identifier, and the product of that record is \<^verbatim>\<open>None\<close> when
  the identifier is the last of the filtered list.
\<close>

theorem unresolved_product:
  assumes "JStr (id_product s) \<notin> fst ` set (pmap self)"
  shows "product_lookup (id_product s) (pmap self) = JNull
    \<and> (\<forall>k ps ids before after.
         py_getitem k ''product_status'' = Inr ps \<and> py_getitem ps ''known_affected'' = Inr ids
         \<and> fc ids = Inr (map JStr (before @ s # after)) \<longrightarrow>
         parse_status fc k (JStr ''known_affected'') self =
           Inr (self\<lparr>affected := affected self @ map (affected_of (pmap self)) before @
                  \<lparr>af_components = [id_component s], af_product = JNull\<rparr> #
                  map (affected_of (pmap self)) after\<rparr>))
    \<and> (\<forall>k ps ids before after.
         py_getitem k ''product_status'' = Inr ps
         \<and> py_getitem ps ''known_not_affected'' = Inr ids
         \<and> fc ids = Inr (map JStr (before @ s # after)) \<longrightarrow>
         parse_status fc k (JStr ''known_not_affected'') self =
           Inr (self\<lparr>not_affected := not_affected self @
                  map (not_affected_of (pmap self)) before @
                  \<lparr>na_components = [id_component s], na_product = JNull\<rparr> #
                  map (not_affected_of (pmap self)) after\<rparr>))
    \<and> (\<forall>x pids before after self'.
         py_getitem x ''category'' = Inr (JStr ''no_fix_planned'')
         \<and> py_getitem x ''product_ids'' = Inr pids
         \<and> py_iter pids = Inr (map JStr (before @ s # after))
         \<and> parse_remediation fc va x self = Inr self' \<longrightarrow>
         (\<exists>d. py_getitem x ''details'' = Inr d
            \<and> self' = self\<lparr>wontfix := wontfix self @ map (wontfix_of d (pmap self)) before @
                  \<lparr>wf_reason = d, wf_component = id_component s, wf_product = JNull\<rparr> #
                  map (wontfix_of d (pmap self)) after\<rparr>))
    \<and> (\<forall>x pids ys self'.
         py_getitem x ''category'' = Inr (JStr ''vendor_fix'')
         \<and> py_getitem x ''product_ids'' = Inr pids \<and> fc pids = Inr (ys @ [JStr s])
         \<and> parse_remediation fc va x self = Inr self' \<longrightarrow>
         (\<exists>f. self' = self\<lparr>fixes' := fixes' self @ [f]\<rparr> \<and> fix_product f = Present JNull
            \<and> fix_components f \<noteq> [] \<and> last (fix_components f) = id_component s))"
proof -
  have none: "product_lookup (id_product s) (pmap self) = JNull"
    using assms by (rule product_lookup_absent)
  have a: "affected_of (pmap self) s = \<lparr>af_components = [id_component s], af_product = JNull\<rparr>"
    and n: "not_affected_of (pmap self) s =
      \<lparr>na_components = [id_component s], na_product = JNull\<rparr>"
    and w: "wontfix_of d (pmap self) s =
      \<lparr>wf_reason = d, wf_component = id_component s, wf_product = JNull\<rparr>" for d
    using none by (simp_all add: affected_of_def not_affected_of_def wontfix_of_def)
  have 1: "parse_status fc k (JStr ''known_affected'') self =
      Inr (self\<lparr>affected := affected self @ map (affected_of (pmap self)) before @
        \<lparr>af_components = [id_component s], af_product = JNull\<rparr> #
        map (affected_of (pmap self)) after\<rparr>)"
    if "py_getitem k ''product_status'' = Inr ps" "py_getitem ps ''known_affected'' = Inr ids"
      "fc ids = Inr (map JStr (before @ s # after))" for k ps ids before after
    using parse_status_known_affected [where fc = fc, OF that] a by simp
  have 2: "parse_status fc k (JStr ''known_not_affected'') self =
      Inr (self\<lparr>not_affected := not_affected self @
        map (not_affected_of (pmap self)) before @
        \<lparr>na_components = [id_component s], na_product = JNull\<rparr> #
        map (not_affected_of (pmap self)) after\<rparr>)"
    if "py_getitem k ''product_status'' = Inr ps"
      "py_getitem ps ''known_not_affected'' = Inr ids"
      "fc ids = Inr (map JStr (before @ s # after))" for k ps ids before after
    using parse_status_known_not_affected [where fc = fc, OF that] n by simp
  have 3: "\<exists>d. py_getitem x ''details'' = Inr d
      \<and> self' = self\<lparr>wontfix := wontfix self @ map (wontfix_of d (pmap self)) before @
        \<lparr>wf_reason = d, wf_component = id_component s, wf_product = JNull\<rparr> #
        map (wontfix_of d (pmap self)) after\<rparr>"
    if "py_getitem x ''category'' = Inr (JStr ''no_fix_planned'')"
      "py_getitem x ''product_ids'' = Inr pids"
      "py_iter pids = Inr (map JStr (before @ s # after))"
      "parse_remediation fc va x self = Inr self'" for x pids before after self'
    using parse_remediation_wontfix_strings [OF that(1-3) _ that(4)] w by simp
  have 4: "\<exists>f. self' = self\<lparr>fixes' := fixes' self @ [f]\<rparr> \<and> fix_product f = Present JNull
      \<and> fix_components f \<noteq> [] \<and> last (fix_components f) = id_component s"
    if "py_getitem x ''category'' = Inr (JStr ''vendor_fix'')"
      "py_getitem x ''product_ids'' = Inr pids" "fc pids = Inr (ys @ [JStr s])"
      "parse_remediation fc va x self = Inr self'" for x pids ys self'
    using parse_remediation_fix_last [where fc = fc, OF that] none by simp
  from none 1 2 3 4 show ?thesis by blast
qed

theorem unresolved_product_witness:
  "JStr (id_product ''UNKNOWN:pkg:1.0'') \<notin> fst ` set (pmap end_to_end_result)
   \<and> parse_status keep_all unresolved_vulnerability (JStr ''known_affected'') end_to_end_result =
       Inr (end_to_end_result\<lparr>affected :=
         [\<lparr>af_components = [''widget:1.0''], af_product = JStr ''Widget 1.0''\<rparr>,
          \<lparr>af_components = [''pkg:1.0''], af_product = JNull\<rparr>]\<rparr>)
   \<and> VexPackages_init keep_all example_vendors unresolved_doc = Inr unresolved_result
   \<and> affected unresolved_result =
       [\<lparr>af_components = [''widget:1.0''], af_product = JStr ''Widget 1.0''\<rparr>,
        \<lparr>af_components = [''pkg:1.0''], af_product = JNull\<rparr>]
   \<and> not_affected unresolved_result =
       [\<lparr>na_components = [''pkg:1.0''], na_product = JNull\<rparr>]"
proof -
  let ?ps = "JObj [(''known_affected'', JArr [JStr ''WID1:widget:1.0'', JStr ''UNKNOWN:pkg:1.0'']),
                  (''known_not_affected'', JArr [JStr ''UNKNOWN:pkg:1.0''])]"
  let ?ids = "JArr [JStr ''WID1:widget:1.0'', JStr ''UNKNOWN:pkg:1.0'']"
  have p: "id_product ''UNKNOWN:pkg:1.0'' = ''UNKNOWN''"
    "id_component ''UNKNOWN:pkg:1.0'' = ''pkg:1.0''"
    "id_product ''WID1:widget:1.0'' = ''WID1''"
    "id_component ''WID1:widget:1.0'' = ''widget:1.0''"
    by (simp_all add: id_product_def id_component_def)
  have absent: "JStr (id_product ''UNKNOWN:pkg:1.0'') \<notin> fst ` set (pmap end_to_end_result)"
    by (simp add: p end_to_end_result_def example_index_def)
  have h: "py_getitem unresolved_vulnerability ''product_status'' = Inr ?ps
      \<and> py_getitem ?ps ''known_affected'' = Inr ?ids
      \<and> keep_all ?ids = Inr (map JStr ([''WID1:widget:1.0''] @ ''UNKNOWN:pkg:1.0'' # []))"
    by (simp add: unresolved_vulnerability_def keep_all_def)
  from unresolved_product [OF absent, of keep_all example_vendors] h
  have "parse_status keep_all unresolved_vulnerability (JStr ''known_affected'') end_to_end_result =
      Inr (end_to_end_result\<lparr>affected := affected end_to_end_result @
        map (affected_of (pmap end_to_end_result)) [''WID1:widget:1.0''] @
        \<lparr>af_components = [id_component ''UNKNOWN:pkg:1.0''], af_product = JNull\<rparr> #
        map (affected_of (pmap end_to_end_result)) []\<rparr>)"
    by blast
  then have "parse_status keep_all unresolved_vulnerability (JStr ''known_affected'')
      end_to_end_result =
       Inr (end_to_end_result\<lparr>affected :=
         [\<lparr>af_components = [''widget:1.0''], af_product = JStr ''Widget 1.0''\<rparr>,
          \<lparr>af_components = [''pkg:1.0''], af_product = JNull\<rparr>]\<rparr>)"
    by (simp add: affected_of_def p end_to_end_result_def example_index_def)
  with absent unresolved_doc_run show ?thesis by (simp add: unresolved_result_def)
qed

text \<open>
  C4 (the claim as stated fails). When the identifier with the unknown product id is not
  the last of a \<^verbatim>\<open>vendor_fix\<close> remediation, the one \<^verbatim>\<open>Fix\<close> record that holds its
  component carries the product of the last identifier, here \<^verbatim>\<open>Widget 1.0\<close>.
\<close>

theorem unresolved_product_not_last_counterexample:
  "JStr (id_product ''UNKNOWN:pkg:1.0'') \<notin> fst ` set example_index
   \<and> VexPackages_init keep_all example_vendors unresolved_first_doc =
       Inr \<lparr>raw = unresolved_first_doc, pmap = example_index,
            fixes' = [\<lparr>fix_id = JStr ''RHSA-2024-0002'',
                       fix_url = JStr ''https://example.org/errata/RHSA-2024-0002'',
                       fix_components = [''pkg:1.0'', ''widget:1.0-2''],
                       fix_vendor = Present ''Red Hat'',
                       fix_product = Present (JStr ''Widget 1.0'')\<rparr>],
            workarounds = [], wontfix = [], affected = [], not_affected = []\<rparr>"
  by (simp add: run_defs unresolved_first_doc_def unresolved_first_fix_def keep_all_def
      example_vendors_def example_index_def id_product_def)

end
